theory Spec2Isabelle
  imports Main "HOL-Library.AList"
begin

section \<open>Values and documents\<close>

text \<open>
  The values a Python dict of the application can hold: JSON values, BSON ObjectIds
  (their hexadecimal text) and datetimes (a point in time, in seconds). A float is kept
  as its IEEE-754 bit pattern, since the program only carries it around. A document is a
  Python dict with string keys: an association list read with \<open>map_of\<close>.
\<close>

datatype val =
    VNone
  | VBool bool
  | VInt int
  | VFloat int
  | VStr string
  | VOid string
  | VTime nat
  | VList "val list"
  | VDict "(string \<times> val) list"

type_synonym doc = "(string \<times> val) list"

text \<open>
  Every exception the modelled code can raise. \<open>HTTPException\<close> carries the status code,
  the detail and the headers. The three jose exceptions form a hierarchy under
  \<open>JWTError\<close>; the others come from bson, pymongo, passlib and Python itself and are
  caught nowhere in \<open>main.py\<close>.
\<close>

datatype error =
    HTTPException nat string "(string \<times> string) list"
  | JWTError
  | ExpiredSignatureError
  | JWTClaimsError
  | InvalidId
  | TypeError
  | KeyError
  | DuplicateKeyError
  | WriteError
  | UnknownHashError

fun is_JWTError :: "error \<Rightarrow> bool" where
  "is_JWTError JWTError = True"
| "is_JWTError ExpiredSignatureError = True"
| "is_JWTError JWTClaimsError = True"
| "is_JWTError _ = False"

text \<open>Python truthiness, as \<open>not x\<close> and \<open>if x\<close> read it.\<close>

fun truthy :: "val \<Rightarrow> bool" where
  "truthy VNone = False"
| "truthy (VBool b) = b"
| "truthy (VInt i) = (i \<noteq> 0)"
| "truthy (VFloat bits) = (bits \<noteq> 0 \<and> bits \<noteq> 9223372036854775808)"
| "truthy (VStr s) = (s \<noteq> [])"
| "truthy (VOid h) = True"
| "truthy (VTime t) = True"
| "truthy (VList xs) = (xs \<noteq> [])"
| "truthy (VDict d) = (d \<noteq> [])"

text \<open>\<open>d.get(k)\<close>, \<open>d.get(k, default)\<close>, \<open>d[k]\<close>, \<open>d[k] = v\<close>, \<open>d.update(other)\<close> and
  \<open>d.setdefault(k, v)\<close>.\<close>

definition dict_get :: "doc \<Rightarrow> string \<Rightarrow> val" where
  "dict_get d k = (case map_of d k of None \<Rightarrow> VNone | Some v \<Rightarrow> v)"

definition dict_get_default :: "doc \<Rightarrow> string \<Rightarrow> val \<Rightarrow> val" where
  "dict_get_default d k dflt = (case map_of d k of None \<Rightarrow> dflt | Some v \<Rightarrow> v)"

definition dict_item :: "doc \<Rightarrow> string \<Rightarrow> error + val" where
  "dict_item d k = (case map_of d k of None \<Rightarrow> Inl KeyError | Some v \<Rightarrow> Inr v)"

definition dict_set :: "string \<Rightarrow> val \<Rightarrow> doc \<Rightarrow> doc" where
  "dict_set k v d = AList.update k v d"

fun dict_update :: "doc \<Rightarrow> doc \<Rightarrow> doc" where
  "dict_update d [] = d"
| "dict_update d ((k, v) # rest) = dict_update (dict_set k v d) rest"

definition setdefault :: "string \<Rightarrow> val \<Rightarrow> doc \<Rightarrow> doc" where
  "setdefault k v d = (case map_of d k of None \<Rightarrow> dict_set k v d | Some _ \<Rightarrow> d)"

section \<open>The environment of a request\<close>

text \<open>
  What a request reads from outside \<open>main.py\<close>: the configured signing secret, the clock
  (\<open>clock env i\<close> is the \<open>i\<close>-th reading of \<open>datetime.now\<close> in the request), the ObjectId the
  driver generates for an insert, and the library functions the code calls (passlib's
  hash and verify, \<open>datetime.isoformat\<close>, \<open>str\<close> on values other than ObjectIds and
  strings, the store's sort). They are parameters: the code is verified for every
  behaviour of theirs.

  A bearer string is, or is not, the compact form of a signed token: \<open>read_jws\<close> gives the
  algorithm and the key it was signed with and its payload (\<open>None\<close> when the payload is
  not a JSON object), and \<open>write_jws\<close> is the compact form of a signed token, which fails
  on a claim that JSON cannot carry.
\<close>

record jws =
  jws_alg :: string
  jws_key :: string
  jws_payload :: "doc option"

record env =
  SECRET_KEY :: string
  clock :: "nat \<Rightarrow> nat"
  new_object_id :: string
  pwd_hash :: "string \<Rightarrow> string"
  pwd_verify :: "string \<Rightarrow> val \<Rightarrow> error + bool"
  read_jws :: "string \<Rightarrow> jws option"
  write_jws :: "jws \<Rightarrow> error + string"
  isoformat :: "nat \<Rightarrow> string"
  str_other :: "val \<Rightarrow> string"
  sort_docs :: "string \<Rightarrow> int \<Rightarrow> doc list \<Rightarrow> doc list"

definition ALGORITHM :: string where
  "ALGORITHM = ''HS256''"

definition ACCESS_TOKEN_EXPIRE_MINUTES :: nat where
  "ACCESS_TOKEN_EXPIRE_MINUTES = 60 * 12"

text \<open>
  Modelled from the spec: the token service, which \<open>main.py\<close> takes from the jose library
  (\<open>jwt.encode\<close>, \<open>jwt.decode\<close>) and which is not under \<open>src/\<close>. Issuing encodes the
  claims with an absolute expiry timestamp and signs them with the secret. Verifying
  fails, with an error of the \<open>JWTError\<close> family and never a crash, if the signature does
  not match (another key, or an algorithm that is not accepted), the payload is malformed
  (no JSON object, or an expiry that is no timestamp), or the current time is past the
  encoded expiry; otherwise it gives the claims. The current time is the clock reading
  of the request.
\<close>

definition jwt_encode :: "env \<Rightarrow> doc \<Rightarrow> string \<Rightarrow> string \<Rightarrow> error + string" where
  "jwt_encode e claims key algorithm =
     write_jws e
       \<lparr>jws_alg = algorithm, jws_key = key,
        jws_payload = Some (map (\<lambda>(k, v). (k, case v of VTime t \<Rightarrow> VInt (int t) | _ \<Rightarrow> v)) claims)\<rparr>"

definition jwt_decode :: "env \<Rightarrow> string \<Rightarrow> string \<Rightarrow> string list \<Rightarrow> error + doc" where
  "jwt_decode e token key algorithms =
     (case read_jws e token of
        None \<Rightarrow> Inl JWTError
      | Some j \<Rightarrow>
          if jws_alg j \<notin> set algorithms \<or> jws_key j \<noteq> key then Inl JWTError
          else (case jws_payload j of
                  None \<Rightarrow> Inl JWTError
                | Some claims \<Rightarrow>
                    (case map_of claims ''exp'' of
                       None \<Rightarrow> Inr claims
                     | Some (VInt t) \<Rightarrow>
                         if t < int (clock e 0) then Inl ExpiredSignatureError else Inr claims
                     | Some _ \<Rightarrow> Inl JWTClaimsError)))"

fun py_str :: "env \<Rightarrow> val \<Rightarrow> string" where
  "py_str e (VOid h) = h"
| "py_str e (VStr s) = s"
| "py_str e v = str_other e v"

section \<open>ObjectId\<close>

text \<open>
  \<open>bson.ObjectId(x)\<close>: an ObjectId is taken as it is; a string must have 24 characters
  and be read by \<open>bytes.fromhex\<close>, which takes pairs of hexadecimal digits and skips
  ASCII whitespace between pairs; anything else raises \<open>InvalidId\<close>, and a value of
  another type raises \<open>TypeError\<close>. The ObjectId is kept as the lower-case hexadecimal
  text of its bytes, which is also what \<open>str\<close> gives.
\<close>

definition is_hex :: "char \<Rightarrow> bool" where
  "is_hex c = (c \<in> set ''0123456789abcdefABCDEF'')"

definition is_space :: "char \<Rightarrow> bool" where
  "is_space c = (c \<in> {CHR '' '', CHR 0x09, CHR 0x0A, CHR 0x0B, CHR 0x0C, CHR 0x0D})"

definition lower :: "char \<Rightarrow> char" where
  "lower c =
     (if c = CHR ''A'' then CHR ''a'' else if c = CHR ''B'' then CHR ''b''
      else if c = CHR ''C'' then CHR ''c'' else if c = CHR ''D'' then CHR ''d''
      else if c = CHR ''E'' then CHR ''e'' else if c = CHR ''F'' then CHR ''f'' else c)"

fun fromhex :: "string \<Rightarrow> string option" where
  "fromhex [] = Some []"
| "fromhex [c] = (if is_space c then Some [] else None)"
| "fromhex (c # d # cs) =
     (if is_space c then fromhex (d # cs)
      else if is_hex c \<and> is_hex d then map_option (\<lambda>r. lower c # lower d # r) (fromhex cs)
      else None)"

fun ObjectId :: "val \<Rightarrow> error + string" where
  "ObjectId (VOid h) = Inr h"
| "ObjectId (VStr s) =
     (if length s = 24 then (case fromhex s of None \<Rightarrow> Inl InvalidId | Some h \<Rightarrow> Inr h)
      else Inl InvalidId)"
| "ObjectId _ = Inl TypeError"

section \<open>The document store\<close>

text \<open>
  \<open>database.db\<close> is a MongoDB database: one list of documents for each collection the
  code names. A query \<open>{k: x}\<close> matches a document whose field \<open>k\<close> equals \<open>x\<close> or is an
  array holding \<open>x\<close>; a query for null also matches a missing field.
\<close>

record db =
  user_coll :: "doc list"
  patient_coll :: "doc list"
  testcatalog_coll :: "doc list"
  referral_coll :: "doc list"
  testresult_coll :: "doc list"

definition field_eq :: "string \<Rightarrow> val \<Rightarrow> doc \<Rightarrow> bool" where
  "field_eq k x d =
     (case map_of d k of
        None \<Rightarrow> x = VNone
      | Some (VList xs) \<Rightarrow> VList xs = x \<or> x \<in> set xs
      | Some v \<Rightarrow> v = x)"

definition find_one :: "doc list \<Rightarrow> string \<Rightarrow> val \<Rightarrow> doc option" where
  "find_one coll k x = List.find (field_eq k x) coll"

definition count_documents :: "doc list \<Rightarrow> string \<Rightarrow> val \<Rightarrow> nat" where
  "count_documents coll k x = length (filter (field_eq k x) coll)"

text \<open>
  \<open>insert_one\<close> gives the document the generated ObjectId when it has no \<open>_id\<close>, and
  refuses an \<open>_id\<close> the collection already holds. It returns the new collection, the
  document as the driver leaves it (with its \<open>_id\<close>) and the inserted id.
\<close>

definition insert_one :: "env \<Rightarrow> doc list \<Rightarrow> doc \<Rightarrow> error + (doc list \<times> doc \<times> val)" where
  "insert_one e coll d =
     (let d' = (case map_of d ''_id'' of None \<Rightarrow> dict_set ''_id'' (VOid (new_object_id e)) d
                                       | Some _ \<Rightarrow> d);
          i = dict_get d' ''_id''
      in if \<exists>x\<in>set coll. map_of x ''_id'' = Some i then Inl DuplicateKeyError
         else Inr (coll @ [d'], d', i))"

text \<open>
  \<open>update_one\<close> by \<open>_id\<close> with a set-update \<open>upd\<close> (and \<open>find_one_and_update\<close>, which the
  code uses for its effect only): the first document with that \<open>_id\<close> gets every field
  of \<open>upd\<close>; an update that would change the immutable \<open>_id\<close> is a write error; no match is no
  change. The field names of \<open>upd\<close> are top-level names (\<open>top_level\<close>): a dotted path or
  an operator name is outside this model.
\<close>

definition top_level :: "doc \<Rightarrow> bool" where
  "top_level upd = list_all (\<lambda>k. k \<noteq> [] \<and> CHR ''.'' \<notin> set k \<and> hd k \<noteq> CHR ''$'') (map fst upd)"

fun update_one :: "doc list \<Rightarrow> string \<Rightarrow> doc \<Rightarrow> error + doc list" where
  "update_one [] oid upd = Inr []"
| "update_one (d # ds) oid upd =
     (if field_eq ''_id'' (VOid oid) d then
        (let d' = dict_update d upd
         in if map_of d' ''_id'' \<noteq> map_of d ''_id'' then Inl WriteError else Inr (d' # ds))
      else (case update_one ds oid upd of Inl e \<Rightarrow> Inl e | Inr ds' \<Rightarrow> Inr (d # ds')))"

fun delete_one :: "doc list \<Rightarrow> string \<Rightarrow> doc list" where
  "delete_one [] oid = []"
| "delete_one (d # ds) oid =
     (if field_eq ''_id'' (VOid oid) d then ds else d # delete_one ds oid)"

section \<open>Helper functions of main.py\<close>

definition hash_password :: "env \<Rightarrow> string \<Rightarrow> string" where
  "hash_password e password = pwd_hash e password"

definition verify_password :: "env \<Rightarrow> string \<Rightarrow> val \<Rightarrow> error + bool" where
  "verify_password e plain_password hashed_password = pwd_verify e plain_password hashed_password"

definition create_access_token :: "env \<Rightarrow> doc \<Rightarrow> error + string" where
  "create_access_token e data =
     (let expire = clock e 0 + ACCESS_TOKEN_EXPIRE_MINUTES * 60;
          to_encode = dict_update data [(''exp'', VTime expire)]
      in jwt_encode e to_encode (SECRET_KEY e) ALGORITHM)"

definition serialize_doc :: "env \<Rightarrow> doc \<Rightarrow> doc" where
  "serialize_doc e d0 =
     (if d0 = [] then d0
      else
        let d1 = (if truthy (dict_get d0 ''_id'')
                  then dict_set ''id'' (VStr (py_str e (dict_get d0 ''_id''))) (AList.delete ''_id'' d0)
                  else d0)
        in map (\<lambda>(k, v). (k, case v of VTime t \<Rightarrow> VStr (isoformat e t) | _ \<Rightarrow> v)) d1)"

definition credentials_exception :: error where
  "credentials_exception =
     HTTPException 401 ''Could not validate credentials'' [(''WWW-Authenticate'', ''Bearer'')]"

definition get_current_user :: "env \<Rightarrow> db \<Rightarrow> string \<Rightarrow> error + doc" where
  "get_current_user e dbs token =
     (case jwt_decode e token (SECRET_KEY e) [ALGORITHM] of
        Inl err \<Rightarrow> if is_JWTError err then Inl credentials_exception else Inl err
      | Inr payload \<Rightarrow>
          let user_id = dict_get payload ''sub''; role = dict_get payload ''role''
          in if user_id = VNone \<or> role = VNone then Inl credentials_exception
             else (case ObjectId user_id of
                     Inl err \<Rightarrow> Inl err
                   | Inr oid \<Rightarrow>
                       (case find_one (user_coll dbs) ''_id'' (VOid oid) of
                          None \<Rightarrow> Inl credentials_exception
                        | Some u \<Rightarrow>
                            if u = [] \<or> \<not> truthy (dict_get_default u ''is_active'' (VBool True))
                            then Inl credentials_exception
                            else Inr (serialize_doc e u))))"

text \<open>\<open>require_roles(*roles)\<close> returns \<open>role_checker\<close>, which runs on the user that
  \<open>get_current_user\<close> resolved.\<close>

definition role_in :: "val \<Rightarrow> string list \<Rightarrow> bool" where
  "role_in v roles = (case v of VStr r \<Rightarrow> r \<in> set roles | _ \<Rightarrow> False)"

definition role_checker :: "string list \<Rightarrow> doc \<Rightarrow> error + doc" where
  "role_checker roles current_user =
     (if \<not> role_in (dict_get current_user ''role'') roles
      then Inl (HTTPException 403 ''Insufficient permissions'' [])
      else Inr current_user)"

definition require_roles :: "string list \<Rightarrow> env \<Rightarrow> db \<Rightarrow> string \<Rightarrow> error + doc" where
  "require_roles roles e dbs token =
     (case get_current_user e dbs token of
        Inl err \<Rightarrow> Inl err
      | Inr current_user \<Rightarrow> role_checker roles current_user)"

section \<open>Request bodies\<close>

text \<open>The pydantic models of the request bodies, and \<open>model_dump\<close> on each: every field
  of the model is a key of the dict, an optional field left out being \<open>None\<close>.\<close>

record UserCreate =
  name :: string
  email :: string
  password :: string
  role :: string

record PatientIn =
  first_name :: string
  last_name :: string
  date_of_birth :: "string option"
  gender :: "string option"
  phone :: "string option"
  email :: "string option"
  hospital_id :: "string option"

record TestCatalogIn =
  code :: string
  name :: string
  description :: "string option"
  sample_type :: "string option"
  price :: "int option"
  tat_hours :: "int option"

record ReferralIn =
  patient_id :: string
  hospital_id :: "string option"
  ordered_by :: "string option"
  tests :: "string list"
  priority :: string
  referral_notes :: "string option"

record TestResultIn =
  referral_id :: string
  test_code :: string
  result_value :: "string option"
  unit :: "string option"
  reference_range :: "string option"
  status :: string

definition opt_str :: "string option \<Rightarrow> val" where
  "opt_str x = (case x of None \<Rightarrow> VNone | Some s \<Rightarrow> VStr s)"

definition dump_patient :: "PatientIn \<Rightarrow> doc" where
  "dump_patient body =
     [(''first_name'', VStr (PatientIn.first_name body)),
      (''last_name'', VStr (PatientIn.last_name body)),
      (''date_of_birth'', opt_str (PatientIn.date_of_birth body)),
      (''gender'', opt_str (PatientIn.gender body)),
      (''phone'', opt_str (PatientIn.phone body)),
      (''email'', opt_str (PatientIn.email body)),
      (''hospital_id'', opt_str (PatientIn.hospital_id body))]"

definition dump_test :: "TestCatalogIn \<Rightarrow> doc" where
  "dump_test body =
     [(''code'', VStr (TestCatalogIn.code body)),
      (''name'', VStr (TestCatalogIn.name body)),
      (''description'', opt_str (TestCatalogIn.description body)),
      (''sample_type'', opt_str (TestCatalogIn.sample_type body)),
      (''price'', (case TestCatalogIn.price body of None \<Rightarrow> VNone | Some x \<Rightarrow> VFloat x)),
      (''tat_hours'', (case TestCatalogIn.tat_hours body of None \<Rightarrow> VNone | Some x \<Rightarrow> VInt x))]"

definition dump_referral :: "ReferralIn \<Rightarrow> doc" where
  "dump_referral body =
     [(''patient_id'', VStr (ReferralIn.patient_id body)),
      (''hospital_id'', opt_str (ReferralIn.hospital_id body)),
      (''ordered_by'', opt_str (ReferralIn.ordered_by body)),
      (''tests'', VList (map VStr (ReferralIn.tests body))),
      (''priority'', VStr (ReferralIn.priority body)),
      (''notes'', opt_str (ReferralIn.referral_notes body))]"

definition dump_result :: "TestResultIn \<Rightarrow> doc" where
  "dump_result body =
     [(''referral_id'', VStr (TestResultIn.referral_id body)),
      (''test_code'', VStr (TestResultIn.test_code body)),
      (''value'', opt_str (TestResultIn.result_value body)),
      (''unit'', opt_str (TestResultIn.unit body)),
      (''reference_range'', opt_str (TestResultIn.reference_range body)),
      (''status'', VStr (TestResultIn.status body))]"

section \<open>Endpoints\<close>

text \<open>
  Each endpoint function takes the user its dependency resolved and the store, and gives
  what it returns or raises together with the store it leaves. The value returned is the
  function's own, before the framework applies the response model.
\<close>

type_synonym outcome = "(error + val) \<times> db"

definition not_found :: "string \<Rightarrow> error" where
  "not_found detail = HTTPException 404 detail []"

definition stamps :: "env \<Rightarrow> doc" where
  "stamps e = [(''created_at'', VTime (clock e 0)), (''updated_at'', VTime (clock e 1))]"

text \<open>The dict both \<open>register_user\<close> and \<open>me\<close> build from a serialized user.\<close>

definition public_projection :: "doc \<Rightarrow> error + val" where
  "public_projection u =
     (case (dict_item u ''id'', dict_item u ''name'', dict_item u ''email'', dict_item u ''role'') of
        (Inr i, Inr n, Inr m, Inr r) \<Rightarrow>
          Inr (VDict [(''id'', i), (''name'', n), (''email'', m), (''role'', r),
                      (''is_active'', dict_get_default u ''is_active'' (VBool True))])
      | _ \<Rightarrow> Inl KeyError)"

definition register_user :: "env \<Rightarrow> UserCreate \<Rightarrow> doc \<Rightarrow> db \<Rightarrow> outcome" where
  "register_user e payload current_user dbs =
     (case find_one (user_coll dbs) ''email'' (VStr (UserCreate.email payload)) of
        Some (_ # _) \<Rightarrow> (Inl (HTTPException 400 ''Email already registered'' []), dbs)
      | _ \<Rightarrow>
          let user_doc =
                [(''name'', VStr (UserCreate.name payload)),
                 (''email'', VStr (UserCreate.email payload)),
                 (''password_hash'', VStr (hash_password e (UserCreate.password payload))),
                 (''role'', VStr (UserCreate.role payload)),
                 (''is_active'', VBool True),
                 (''created_at'', VTime (clock e 0)),
                 (''updated_at'', VTime (clock e 1))]
          in (case insert_one e (user_coll dbs) user_doc of
                Inl err \<Rightarrow> (Inl err, dbs)
              | Inr (coll, d, inserted_id) \<Rightarrow>
                  (public_projection (serialize_doc e (dict_set ''_id'' inserted_id d)),
                   dbs\<lparr>user_coll := coll\<rparr>)))"

definition login :: "env \<Rightarrow> string \<Rightarrow> string \<Rightarrow> db \<Rightarrow> error + val" where
  "login e username pw dbs =
     (case find_one (user_coll dbs) ''email'' (VStr username) of
        None \<Rightarrow> Inl (HTTPException 400 ''Incorrect email or password'' [])
      | Some [] \<Rightarrow> Inl (HTTPException 400 ''Incorrect email or password'' [])
      | Some u \<Rightarrow>
          (case verify_password e pw (dict_get_default u ''password_hash'' (VStr [])) of
             Inl err \<Rightarrow> Inl err
           | Inr ok \<Rightarrow>
               if \<not> ok then Inl (HTTPException 400 ''Incorrect email or password'' [])
               else (case dict_item u ''_id'' of
                       Inl err \<Rightarrow> Inl err
                     | Inr i \<Rightarrow>
                         (case create_access_token e
                                 [(''sub'', VStr (py_str e i)),
                                  (''role'', dict_get_default u ''role'' (VStr ''viewer''))] of
                            Inl err \<Rightarrow> Inl err
                          | Inr access_token \<Rightarrow>
                              Inr (VDict [(''access_token'', VStr access_token),
                                          (''token_type'', VStr ''bearer'')])))))"

definition me :: "doc \<Rightarrow> error + val" where
  "me current_user = public_projection current_user"

subsection \<open>Patients\<close>

definition create_patient :: "env \<Rightarrow> PatientIn \<Rightarrow> doc \<Rightarrow> db \<Rightarrow> outcome" where
  "create_patient e body current_user dbs =
     (let d = dict_update (dump_patient body) (stamps e)
      in case insert_one e (patient_coll dbs) d of
           Inl err \<Rightarrow> (Inl err, dbs)
         | Inr (coll, d', inserted_id) \<Rightarrow>
             (Inr (VDict (serialize_doc e (dict_set ''_id'' inserted_id d'))),
              dbs\<lparr>patient_coll := coll\<rparr>))"

definition list_docs :: "env \<Rightarrow> doc list \<Rightarrow> string \<Rightarrow> int \<Rightarrow> nat \<Rightarrow> val" where
  "list_docs e coll k dir n = VList (map (\<lambda>d. VDict (serialize_doc e d)) (take n (sort_docs e k dir coll)))"

definition list_patients :: "env \<Rightarrow> doc \<Rightarrow> db \<Rightarrow> outcome" where
  "list_patients e current_user dbs = (Inr (list_docs e (patient_coll dbs) ''created_at'' (-1) 200), dbs)"

definition get_patient :: "env \<Rightarrow> string \<Rightarrow> doc \<Rightarrow> db \<Rightarrow> outcome" where
  "get_patient e patient_id' current_user dbs =
     (case ObjectId (VStr patient_id') of
        Inl err \<Rightarrow> (Inl err, dbs)
      | Inr oid \<Rightarrow>
          (case find_one (patient_coll dbs) ''_id'' (VOid oid) of
             Some (x # xs) \<Rightarrow> (Inr (VDict (serialize_doc e (x # xs))), dbs)
           | _ \<Rightarrow> (Inl (not_found ''Patient not found''), dbs)))"

text \<open>The four update endpoints share their shape: parse the id, set the fields, read
  the document back, 404 when there is none.\<close>

definition update_by_id :: "env \<Rightarrow> doc list \<Rightarrow> string \<Rightarrow> doc \<Rightarrow> string \<Rightarrow> (error + val) \<times> doc list" where
  "update_by_id e coll id_str upd detail =
     (case ObjectId (VStr id_str) of
        Inl err \<Rightarrow> (Inl err, coll)
      | Inr oid \<Rightarrow>
          (case update_one coll oid upd of
             Inl err \<Rightarrow> (Inl err, coll)
           | Inr coll' \<Rightarrow>
               (case find_one coll' ''_id'' (VOid oid) of
                  Some (x # xs) \<Rightarrow> (Inr (VDict (serialize_doc e (x # xs))), coll')
                | _ \<Rightarrow> (Inl (not_found detail), coll'))))"

definition update_patient :: "env \<Rightarrow> string \<Rightarrow> PatientIn \<Rightarrow> doc \<Rightarrow> db \<Rightarrow> outcome" where
  "update_patient e patient_id' body current_user dbs =
     (let upd = dict_set ''updated_at'' (VTime (clock e 0)) (dump_patient body);
          (r, coll) = update_by_id e (patient_coll dbs) patient_id' upd ''Patient not found''
      in (r, dbs\<lparr>patient_coll := coll\<rparr>))"

definition delete_patient :: "env \<Rightarrow> string \<Rightarrow> doc \<Rightarrow> db \<Rightarrow> outcome" where
  "delete_patient e patient_id' current_user dbs =
     (case ObjectId (VStr patient_id') of
        Inl err \<Rightarrow> (Inl err, dbs)
      | Inr oid \<Rightarrow>
          (Inr (VDict [(''ok'', VBool True)]),
           dbs\<lparr>patient_coll := delete_one (patient_coll dbs) oid\<rparr>))"

subsection \<open>Test catalog\<close>

definition create_test :: "env \<Rightarrow> TestCatalogIn \<Rightarrow> doc \<Rightarrow> db \<Rightarrow> outcome" where
  "create_test e body current_user dbs =
     (let d = dict_update (dump_test body) (stamps e)
      in case insert_one e (testcatalog_coll dbs) d of
           Inl err \<Rightarrow> (Inl err, dbs)
         | Inr (coll, d', inserted_id) \<Rightarrow>
             (Inr (VDict (serialize_doc e (dict_set ''_id'' inserted_id d'))),
              dbs\<lparr>testcatalog_coll := coll\<rparr>))"

definition list_tests :: "env \<Rightarrow> doc \<Rightarrow> db \<Rightarrow> outcome" where
  "list_tests e current_user dbs = (Inr (list_docs e (testcatalog_coll dbs) ''name'' 1 500), dbs)"

definition update_test :: "env \<Rightarrow> string \<Rightarrow> TestCatalogIn \<Rightarrow> doc \<Rightarrow> db \<Rightarrow> outcome" where
  "update_test e test_id body current_user dbs =
     (let upd = dict_set ''updated_at'' (VTime (clock e 0)) (dump_test body);
          (r, coll) = update_by_id e (testcatalog_coll dbs) test_id upd ''Test not found''
      in (r, dbs\<lparr>testcatalog_coll := coll\<rparr>))"

definition delete_test :: "env \<Rightarrow> string \<Rightarrow> doc \<Rightarrow> db \<Rightarrow> outcome" where
  "delete_test e test_id current_user dbs =
     (case ObjectId (VStr test_id) of
        Inl err \<Rightarrow> (Inl err, dbs)
      | Inr oid \<Rightarrow>
          (Inr (VDict [(''ok'', VBool True)]),
           dbs\<lparr>testcatalog_coll := delete_one (testcatalog_coll dbs) oid\<rparr>))"

subsection \<open>Referrals\<close>

definition create_referral :: "env \<Rightarrow> ReferralIn \<Rightarrow> doc \<Rightarrow> db \<Rightarrow> outcome" where
  "create_referral e body current_user dbs =
     (let d0 = dump_referral body;
          d1 = setdefault ''status'' (VStr ''pending'') d0;
          d2 = setdefault ''ordered_by'' (dict_get current_user ''id'') d1;
          d3 = dict_update d2 (stamps e)
      in case insert_one e (referral_coll dbs) d3 of
           Inl err \<Rightarrow> (Inl err, dbs)
         | Inr (coll, d', inserted_id) \<Rightarrow>
             (Inr (VDict (serialize_doc e (dict_set ''_id'' inserted_id d'))),
              dbs\<lparr>referral_coll := coll\<rparr>))"

definition list_referrals :: "env \<Rightarrow> doc \<Rightarrow> db \<Rightarrow> outcome" where
  "list_referrals e current_user dbs = (Inr (list_docs e (referral_coll dbs) ''created_at'' (-1) 200), dbs)"

definition update_referral :: "env \<Rightarrow> string \<Rightarrow> doc \<Rightarrow> doc \<Rightarrow> db \<Rightarrow> outcome" where
  "update_referral e ref_id update current_user dbs =
     (let upd = dict_set ''updated_at'' (VTime (clock e 0)) update;
          (r, coll) = update_by_id e (referral_coll dbs) ref_id upd ''Referral not found''
      in (r, dbs\<lparr>referral_coll := coll\<rparr>))"

subsection \<open>Results\<close>

definition create_result :: "env \<Rightarrow> TestResultIn \<Rightarrow> doc \<Rightarrow> db \<Rightarrow> outcome" where
  "create_result e body current_user dbs =
     (let d = dict_update (dump_result body) (stamps e)
      in case insert_one e (testresult_coll dbs) d of
           Inl err \<Rightarrow> (Inl err, dbs)
         | Inr (coll, d', inserted_id) \<Rightarrow>
             (Inr (VDict (serialize_doc e (dict_set ''_id'' inserted_id d'))),
              dbs\<lparr>testresult_coll := coll\<rparr>))"

definition list_results :: "env \<Rightarrow> doc \<Rightarrow> db \<Rightarrow> outcome" where
  "list_results e current_user dbs = (Inr (list_docs e (testresult_coll dbs) ''created_at'' (-1) 200), dbs)"

definition update_result :: "env \<Rightarrow> string \<Rightarrow> doc \<Rightarrow> doc \<Rightarrow> db \<Rightarrow> outcome" where
  "update_result e result_id update current_user dbs =
     (let upd = dict_set ''updated_at'' (VTime (clock e 0)) update;
          (r, coll) = update_by_id e (testresult_coll dbs) result_id upd ''Result not found''
      in (r, dbs\<lparr>testresult_coll := coll\<rparr>))"

subsection \<open>Seeding the first admin\<close>

definition seed_admin :: "env \<Rightarrow> db \<Rightarrow> outcome" where
  "seed_admin e dbs =
     (if count_documents (user_coll dbs) ''role'' (VStr ''admin'') > 0
      then (Inr (VDict [(''message'', VStr ''Admin exists'')]), dbs)
      else
        let user_doc =
              [(''name'', VStr ''Super Admin''),
               (''email'', VStr ''admin@lab.local''),
               (''password_hash'', VStr (hash_password e ''admin123'')),
               (''role'', VStr ''admin''),
               (''is_active'', VBool True),
               (''created_at'', VTime (clock e 0)),
               (''updated_at'', VTime (clock e 1))]
        in (case insert_one e (user_coll dbs) user_doc of
              Inl err \<Rightarrow> (Inl err, dbs)
            | Inr (coll, d, inserted_id) \<Rightarrow>
                (Inr (VDict [(''message'', VStr ''Admin seeded''),
                             (''email'', dict_get d ''email''),
                             (''password'', VStr ''admin123'')]),
                 dbs\<lparr>user_coll := coll\<rparr>)))"

section \<open>Routes and their role dependencies\<close>

text \<open>
  A protected request names its endpoint and carries its arguments. \<open>route_roles\<close> is the
  role list each route passes to \<open>require_roles\<close> in its \<open>Depends\<close>; the framework
  resolves that dependency first and calls the endpoint function only when it returns.
\<close>

datatype request =
    RegisterUser UserCreate
  | CreatePatient PatientIn
  | ListPatients
  | GetPatient string
  | UpdatePatient string PatientIn
  | DeletePatient string
  | CreateTest TestCatalogIn
  | ListTests
  | UpdateTest string TestCatalogIn
  | DeleteTest string
  | CreateReferral ReferralIn
  | ListReferrals
  | UpdateReferral string doc
  | CreateResult TestResultIn
  | ListResults
  | UpdateResult string doc

fun route_roles :: "request \<Rightarrow> string list" where
  "route_roles (RegisterUser _) = [''admin'']"
| "route_roles (CreatePatient _) = [''admin'', ''hospital_staff'']"
| "route_roles ListPatients = [''admin'', ''hospital_staff'', ''lab_tech'', ''viewer'']"
| "route_roles (GetPatient _) = [''admin'', ''hospital_staff'', ''lab_tech'', ''viewer'']"
| "route_roles (UpdatePatient _ _) = [''admin'', ''hospital_staff'']"
| "route_roles (DeletePatient _) = [''admin'']"
| "route_roles (CreateTest _) = [''admin'', ''lab_tech'']"
| "route_roles ListTests = [''admin'', ''hospital_staff'', ''lab_tech'', ''viewer'']"
| "route_roles (UpdateTest _ _) = [''admin'', ''lab_tech'']"
| "route_roles (DeleteTest _) = [''admin'']"
| "route_roles (CreateReferral _) = [''admin'', ''hospital_staff'']"
| "route_roles ListReferrals = [''admin'', ''hospital_staff'', ''lab_tech'', ''viewer'']"
| "route_roles (UpdateReferral _ _) = [''admin'', ''lab_tech'']"
| "route_roles (CreateResult _) = [''admin'', ''lab_tech'']"
| "route_roles ListResults = [''admin'', ''hospital_staff'', ''lab_tech'', ''viewer'']"
| "route_roles (UpdateResult _ _) = [''admin'', ''lab_tech'']"

fun endpoint :: "env \<Rightarrow> request \<Rightarrow> doc \<Rightarrow> db \<Rightarrow> outcome" where
  "endpoint e (RegisterUser payload) u dbs = register_user e payload u dbs"
| "endpoint e (CreatePatient body) u dbs = create_patient e body u dbs"
| "endpoint e ListPatients u dbs = list_patients e u dbs"
| "endpoint e (GetPatient i) u dbs = get_patient e i u dbs"
| "endpoint e (UpdatePatient i body) u dbs = update_patient e i body u dbs"
| "endpoint e (DeletePatient i) u dbs = delete_patient e i u dbs"
| "endpoint e (CreateTest body) u dbs = create_test e body u dbs"
| "endpoint e ListTests u dbs = list_tests e u dbs"
| "endpoint e (UpdateTest i body) u dbs = update_test e i body u dbs"
| "endpoint e (DeleteTest i) u dbs = delete_test e i u dbs"
| "endpoint e (CreateReferral body) u dbs = create_referral e body u dbs"
| "endpoint e ListReferrals u dbs = list_referrals e u dbs"
| "endpoint e (UpdateReferral i upd) u dbs = update_referral e i upd u dbs"
| "endpoint e (CreateResult body) u dbs = create_result e body u dbs"
| "endpoint e ListResults u dbs = list_results e u dbs"
| "endpoint e (UpdateResult i upd) u dbs = update_result e i upd u dbs"

definition handle_request :: "env \<Rightarrow> string \<Rightarrow> request \<Rightarrow> db \<Rightarrow> outcome" where
  "handle_request e token req dbs =
     (case require_roles (route_roles req) e dbs token of
        Inl err \<Rightarrow> (Inl err, dbs)
      | Inr current_user \<Rightarrow> endpoint e req current_user dbs)"

text \<open>
  What a client sees of an outcome: the status of a raised \<open>HTTPException\<close>; an exception
  that nothing catches is answered by the framework with 500.
\<close>

fun response_status :: "error + val \<Rightarrow> nat" where
  "response_status (Inr _) = 200"
| "response_status (Inl (HTTPException c _ _)) = c"
| "response_status (Inl _) = 500"

text \<open>The path identifier of a request, for the routes that have one.\<close>

fun path_id :: "request \<Rightarrow> string option" where
  "path_id (GetPatient i) = Some i"
| "path_id (UpdatePatient i _) = Some i"
| "path_id (DeletePatient i) = Some i"
| "path_id (UpdateTest i _) = Some i"
| "path_id (DeleteTest i) = Some i"
| "path_id (UpdateReferral i _) = Some i"
| "path_id (UpdateResult i _) = Some i"
| "path_id _ = None"

text \<open>The four resource collections, read and replaced by name.\<close>

datatype resource = Patient | TestCatalog | Referral | TestResult

fun coll_of :: "resource \<Rightarrow> db \<Rightarrow> doc list" where
  "coll_of Patient dbs = patient_coll dbs"
| "coll_of TestCatalog dbs = testcatalog_coll dbs"
| "coll_of Referral dbs = referral_coll dbs"
| "coll_of TestResult dbs = testresult_coll dbs"

fun put_coll :: "resource \<Rightarrow> doc list \<Rightarrow> db \<Rightarrow> db" where
  "put_coll Patient c dbs = dbs\<lparr>patient_coll := c\<rparr>"
| "put_coll TestCatalog c dbs = dbs\<lparr>testcatalog_coll := c\<rparr>"
| "put_coll Referral c dbs = dbs\<lparr>referral_coll := c\<rparr>"
| "put_coll TestResult c dbs = dbs\<lparr>testresult_coll := c\<rparr>"

text \<open>
  For the four update routes: the collection the endpoint writes, the path identifier,
  the fields it hands to the store before stamping \<open>updated_at\<close> (the dump of the whole
  body model for Patient and TestCatalog, the client's own map for Referral and
  TestResult) and the detail of its 404.
\<close>

fun update_target :: "request \<Rightarrow> (resource \<times> string \<times> doc \<times> string) option" where
  "update_target (UpdatePatient i body) = Some (Patient, i, dump_patient body, ''Patient not found'')"
| "update_target (UpdateTest i body) = Some (TestCatalog, i, dump_test body, ''Test not found'')"
| "update_target (UpdateReferral i upd) = Some (Referral, i, upd, ''Referral not found'')"
| "update_target (UpdateResult i upd) = Some (TestResult, i, upd, ''Result not found'')"
| "update_target _ = None"

section \<open>The role table of the specification\<close>

text \<open>
  The allowed-role set of each operation as the specification's table words it (section
  4.4), written independently of \<open>route_roles\<close> and compared with it below.
\<close>

datatype operation =
    Register
  | Create resource
  | Read resource
  | Update resource
  | Delete resource

fun operation_of :: "request \<Rightarrow> operation" where
  "operation_of (RegisterUser _) = Register"
| "operation_of (CreatePatient _) = Create Patient"
| "operation_of ListPatients = Read Patient"
| "operation_of (GetPatient _) = Read Patient"
| "operation_of (UpdatePatient _ _) = Update Patient"
| "operation_of (DeletePatient _) = Delete Patient"
| "operation_of (CreateTest _) = Create TestCatalog"
| "operation_of ListTests = Read TestCatalog"
| "operation_of (UpdateTest _ _) = Update TestCatalog"
| "operation_of (DeleteTest _) = Delete TestCatalog"
| "operation_of (CreateReferral _) = Create Referral"
| "operation_of ListReferrals = Read Referral"
| "operation_of (UpdateReferral _ _) = Update Referral"
| "operation_of (CreateResult _) = Create TestResult"
| "operation_of ListResults = Read TestResult"
| "operation_of (UpdateResult _ _) = Update TestResult"

fun spec_allowed_roles :: "operation \<Rightarrow> string set" where
  "spec_allowed_roles Register = {''admin''}"
| "spec_allowed_roles (Read _) = {''admin'', ''hospital_staff'', ''lab_tech'', ''viewer''}"
| "spec_allowed_roles (Delete _) = {''admin''}"
| "spec_allowed_roles (Create Patient) = {''admin'', ''hospital_staff''}"
| "spec_allowed_roles (Update Patient) = {''admin'', ''hospital_staff''}"
| "spec_allowed_roles (Create TestCatalog) = {''admin'', ''lab_tech''}"
| "spec_allowed_roles (Update TestCatalog) = {''admin'', ''lab_tech''}"
| "spec_allowed_roles (Create Referral) = {''admin'', ''hospital_staff''}"
| "spec_allowed_roles (Update Referral) = {''admin'', ''lab_tech''}"
| "spec_allowed_roles (Create TestResult) = {''admin'', ''lab_tech''}"
| "spec_allowed_roles (Update TestResult) = {''admin'', ''lab_tech''}"

text \<open>The caller's role lies in a set of role names: it is a string, and one of them.\<close>

definition has_role :: "doc \<Rightarrow> string set \<Rightarrow> bool" where
  "has_role u rs = (case dict_get u ''role'' of VStr r \<Rightarrow> r \<in> rs | _ \<Rightarrow> False)"

section \<open>A small deployment\<close>

text \<open>
  A concrete store and environment on which the theorems below are exercised: six users
  (Vera's document has no \<open>is_active\<close> field, the admin Ina is deactivated, Olaf's
  document has no password hash), one patient, one referral and one result. The clock
  stands at 1000; ten bearer strings are signed tokens, of which one is signed with
  another key, one has a payload that is no JSON object and one expired at 500.
\<close>

definition demo_users :: "doc list" where
  "demo_users =
     [[(''_id'', VOid ''0000000000000000000000a0''), (''name'', VStr ''Root''),
       (''email'', VStr ''root@lab.local''), (''password_hash'', VStr ''h:root-pw''),
       (''role'', VStr ''admin''), (''is_active'', VBool True)],
      [(''_id'', VOid ''0000000000000000000000a1''), (''name'', VStr ''Vera''),
       (''email'', VStr ''vera@lab.local''), (''password_hash'', VStr ''h:vera-pw''),
       (''role'', VStr ''viewer'')],
      [(''_id'', VOid ''0000000000000000000000a2''), (''name'', VStr ''Lars''),
       (''email'', VStr ''lars@lab.local''), (''password_hash'', VStr ''h:lars-pw''),
       (''role'', VStr ''lab_tech''), (''is_active'', VBool True)],
      [(''_id'', VOid ''0000000000000000000000a3''), (''name'', VStr ''Ina''),
       (''email'', VStr ''ina@lab.local''), (''password_hash'', VStr ''h:ina-pw''),
       (''role'', VStr ''admin''), (''is_active'', VBool False)],
      [(''_id'', VOid ''0000000000000000000000a4''), (''name'', VStr ''Hana''),
       (''email'', VStr ''hana@lab.local''), (''password_hash'', VStr ''h:hana-pw''),
       (''role'', VStr ''hospital_staff''), (''is_active'', VBool True)],
      [(''_id'', VOid ''0000000000000000000000a5''), (''name'', VStr ''Olaf''),
       (''email'', VStr ''olaf@lab.local''), (''role'', VStr ''viewer''),
       (''is_active'', VBool True)]]"

definition demo_patient :: doc where
  "demo_patient =
     [(''_id'', VOid ''0000000000000000000000b0''), (''first_name'', VStr ''Ann''),
      (''last_name'', VStr ''Lee''), (''date_of_birth'', VNone), (''gender'', VNone),
      (''phone'', VStr ''555''), (''email'', VNone), (''hospital_id'', VNone),
      (''created_at'', VTime 10), (''updated_at'', VTime 10)]"

definition demo_referral :: doc where
  "demo_referral =
     [(''_id'', VOid ''0000000000000000000000c0''),
      (''patient_id'', VStr ''0000000000000000000000b0''), (''hospital_id'', VNone),
      (''ordered_by'', VNone), (''tests'', VList [VStr ''CBC'']), (''priority'', VStr ''normal''),
      (''notes'', VNone), (''status'', VStr ''pending''),
      (''created_at'', VTime 20), (''updated_at'', VTime 20)]"

definition demo_result :: doc where
  "demo_result =
     [(''_id'', VOid ''0000000000000000000000d0''),
      (''referral_id'', VStr ''0000000000000000000000c0''), (''test_code'', VStr ''CBC''),
      (''value'', VStr ''4.2''), (''unit'', VNone), (''reference_range'', VNone),
      (''status'', VStr ''pending''), (''created_at'', VTime 30), (''updated_at'', VTime 30)]"

definition demo_db :: db where
  "demo_db = \<lparr>user_coll = demo_users, patient_coll = [demo_patient], testcatalog_coll = [],
              referral_coll = [demo_referral], testresult_coll = [demo_result]\<rparr>"

definition demo_signed :: "doc \<Rightarrow> jws" where
  "demo_signed claims = \<lparr>jws_alg = ''HS256'', jws_key = ''supersecretkey'', jws_payload = Some claims\<rparr>"

definition demo_tokens :: "(string \<times> jws) list" where
  "demo_tokens =
     [(''tok-admin'', demo_signed [(''sub'', VStr ''0000000000000000000000a0''),
                                   (''role'', VStr ''admin''), (''exp'', VInt 5000)]),
      (''tok-viewer'', demo_signed [(''sub'', VStr ''0000000000000000000000a1''),
                                    (''role'', VStr ''viewer''), (''exp'', VInt 5000)]),
      (''tok-lab'', demo_signed [(''sub'', VStr ''0000000000000000000000a2''),
                                 (''role'', VStr ''lab_tech''), (''exp'', VInt 5000)]),
      (''tok-inactive'', demo_signed [(''sub'', VStr ''0000000000000000000000a3''),
                                      (''role'', VStr ''admin''), (''exp'', VInt 5000)]),
      (''tok-staff'', demo_signed [(''sub'', VStr ''0000000000000000000000a4''),
                                   (''role'', VStr ''hospital_staff''), (''exp'', VInt 5000)]),
      (''tok-ghost'', demo_signed [(''sub'', VStr ''0000000000000000000000af''),
                                   (''role'', VStr ''admin''), (''exp'', VInt 5000)]),
      (''tok-badsub'', demo_signed [(''sub'', VStr ''xyz''), (''role'', VStr ''admin''),
                                    (''exp'', VInt 5000)]),
      (''tok-expired'', demo_signed [(''sub'', VStr ''0000000000000000000000a0''),
                                     (''role'', VStr ''admin''), (''exp'', VInt 500)]),
      (''tok-forged'', \<lparr>jws_alg = ''HS256'', jws_key = ''guessed'',
                         jws_payload = Some [(''sub'', VStr ''0000000000000000000000a0''),
                                             (''role'', VStr ''admin''), (''exp'', VInt 5000)]\<rparr>),
      (''tok-mangled'', \<lparr>jws_alg = ''HS256'', jws_key = ''supersecretkey'', jws_payload = None\<rparr>)]"

definition demo_env :: env where
  "demo_env =
     \<lparr>SECRET_KEY = ''supersecretkey'',
      clock = (\<lambda>i. 1000 + i),
      new_object_id = ''0000000000000000000000e0'',
      pwd_hash = (\<lambda>p. ''h:'' @ p),
      pwd_verify = (\<lambda>p h. case h of VStr s \<Rightarrow> (if take 2 s = ''h:'' then Inr (s = ''h:'' @ p)
                                                else Inl UnknownHashError)
                                   | VNone \<Rightarrow> Inr False
                                   | _ \<Rightarrow> Inl TypeError),
      read_jws = map_of demo_tokens,
      write_jws = (\<lambda>j. Inr ''tok-new''),
      isoformat = (\<lambda>t. ''T''),
      str_other = (\<lambda>v. ''?''),
      sort_docs = (\<lambda>k dir ds. ds)\<rparr>"

text \<open>Request bodies and update maps sent to that deployment.\<close>

definition demo_referral_in :: ReferralIn where
  "demo_referral_in =
     \<lparr>patient_id = ''0000000000000000000000b0'', hospital_id = None, ordered_by = None,
      tests = [''CBC''], priority = ''normal'', referral_notes = None\<rparr>"

definition demo_patient_in :: PatientIn where
  "demo_patient_in =
     \<lparr>first_name = ''Ann'', last_name = ''Lee'', date_of_birth = None, gender = None,
      phone = None, email = None, PatientIn.hospital_id = None\<rparr>"

definition demo_test_in :: TestCatalogIn where
  "demo_test_in =
     \<lparr>code = ''CBC'', TestCatalogIn.name = ''Blood count'', description = None,
      sample_type = None, price = None, tat_hours = None\<rparr>"

definition demo_verify :: doc where
  "demo_verify =
     [(''status'', VStr ''verified''), (''reviewed_by'', VStr ''0000000000000000000000a2''),
      (''reviewed_at'', VStr ''2024-05-01T10:00:00'')]"

definition demo_viewer :: doc where
  "demo_viewer =
     [(''name'', VStr ''Vera''), (''email'', VStr ''vera@lab.local''),
      (''password_hash'', VStr ''h:vera-pw''), (''role'', VStr ''viewer''),
      (''id'', VStr ''0000000000000000000000a1'')]"

definition empty_db :: db where
  "empty_db = \<lparr>user_coll = [], patient_coll = [], testcatalog_coll = [], referral_coll = [],
               testresult_coll = []\<rparr>"

section \<open>Dictionaries and the store\<close>

lemma map_of_dict_set: "map_of (dict_set k v d) = (map_of d)(k \<mapsto> v)"
  by (simp add: dict_set_def update_conv')

lemma map_of_dict_update_other:
  "k \<notin> fst ` set upd \<Longrightarrow> map_of (dict_update d upd) k = map_of d k"
  by (induction d upd rule: dict_update.induct) (auto simp: map_of_dict_set)

lemma map_of_dict_update_pt:
  "distinct (map fst upd) \<Longrightarrow>
   map_of (dict_update d upd) k = (case map_of upd k of None \<Rightarrow> map_of d k | Some v \<Rightarrow> Some v)"
proof (induction d upd rule: dict_update.induct)
  case (1 d)
  then show ?case by simp
next
  case (2 d k' v rest)
  then have "map_of rest k' = None" by (simp add: map_of_eq_None_iff)
  with 2 show ?case by (auto simp: map_of_dict_set split: option.splits)
qed

lemma map_of_dict_update:
  "distinct (map fst upd) \<Longrightarrow> map_of (dict_update d upd) = map_of d ++ map_of upd"
  by (rule ext) (simp add: map_of_dict_update_pt map_add_def)

lemma find_one_nonempty:
  "find_one coll k x = Some d \<Longrightarrow> x \<noteq> VNone \<Longrightarrow> d \<noteq> []"
  by (auto simp: find_one_def find_Some_iff field_eq_def)

lemma update_one_no_match:
  "find_one coll ''_id'' (VOid oid) = None \<Longrightarrow> update_one coll oid upd = Inr coll"
proof (induction coll)
  case Nil
  show ?case by simp
next
  case (Cons a coll)
  then have a: "\<not> field_eq ''_id'' (VOid oid) a" and r: "find_one coll ''_id'' (VOid oid) = None"
    by (simp_all add: find_one_def split: if_splits)
  from Cons.IH[OF r] a show ?case by simp
qed

lemma field_eq_same_field:
  "map_of d' k = map_of d k \<Longrightarrow> field_eq k x d' = field_eq k x d"
  by (simp add: field_eq_def)

lemma update_one_match:
  "find_one coll ''_id'' (VOid oid) = Some d \<Longrightarrow> update_one coll oid upd = Inr coll' \<Longrightarrow>
   find_one coll' ''_id'' (VOid oid) = Some (dict_update d upd)"
proof (induction coll arbitrary: coll')
  case Nil
  then show ?case by (simp add: find_one_def)
next
  case (Cons a coll)
  show ?case
  proof (cases "field_eq ''_id'' (VOid oid) a")
    case True
    with Cons.prems(1) have ad: "a = d" by (simp add: find_one_def)
    from True Cons.prems(2) have same: "map_of (dict_update a upd) ''_id'' = map_of a ''_id''"
      and c: "coll' = dict_update a upd # coll"
      by (simp_all add: Let_def split: if_splits)
    from field_eq_same_field[OF same] True have "field_eq ''_id'' (VOid oid) (dict_update a upd)"
      by simp
    with c ad show ?thesis by (simp add: find_one_def)
  next
    case False
    with Cons.prems(2) obtain ds where ds: "update_one coll oid upd = Inr ds" "coll' = a # ds"
      by (cases "update_one coll oid upd") simp_all
    from False Cons.prems(1) have "find_one coll ''_id'' (VOid oid) = Some d"
      by (simp add: find_one_def)
    from Cons.IH[OF this ds(1)] False ds(2) show ?thesis by (simp add: find_one_def)
  qed
qed

lemma update_one_ok:
  "find_one coll ''_id'' (VOid oid) = Some d \<Longrightarrow> ''_id'' \<notin> fst ` set upd \<Longrightarrow>
   \<exists>coll'. update_one coll oid upd = Inr coll'"
proof (induction coll)
  case Nil
  then show ?case by (simp add: find_one_def)
next
  case (Cons a coll)
  show ?case
  proof (cases "field_eq ''_id'' (VOid oid) a")
    case True
    with map_of_dict_update_other[OF Cons.prems(2), of a] show ?thesis by (simp add: Let_def)
  next
    case False
    with Cons.prems(1) have "find_one coll ''_id'' (VOid oid) = Some d"
      by (simp add: find_one_def)
    from Cons.IH[OF this Cons.prems(2)] False show ?thesis by auto
  qed
qed

section \<open>Role gating\<close>

lemma route_roles_spec: "set (route_roles req) = spec_allowed_roles (operation_of req)"
  by (cases req) auto

lemma role_in_has_role: "role_in (dict_get u ''role'') roles = has_role u (set roles)"
  by (simp add: role_in_def has_role_def)

lemmas demo_eval =
  jwt_decode_def ALGORITHM_def demo_signed_def
  demo_env_def demo_db_def demo_tokens_def demo_users_def dict_get_def dict_get_default_def
  find_one_def field_eq_def serialize_doc_def dict_set_def is_hex_def is_space_def lower_def

lemma demo_viewer_resolved:
  "get_current_user demo_env demo_db ''tok-viewer'' = Inr demo_viewer"
  by (simp add: get_current_user_def demo_viewer_def demo_eval)

text \<open>
  C1. A caller whom \<open>get_current_user\<close> resolved and whose role is not in the allowed set
  that the specification's table gives the operation is rejected with 403 and the store is
  untouched; a caller whose role is in that set reaches the endpoint function, whose
  outcome is the outcome of the request.
\<close>

theorem role_gate:
  assumes "get_current_user e dbs token = Inr u"
  shows "(\<not> has_role u (spec_allowed_roles (operation_of req)) \<longrightarrow>
            handle_request e token req dbs =
              (Inl (HTTPException 403 ''Insufficient permissions'' []), dbs))
       \<and> (has_role u (spec_allowed_roles (operation_of req)) \<longrightarrow>
            handle_request e token req dbs = endpoint e req u dbs)"
  using assms
  by (simp add: handle_request_def require_roles_def role_checker_def role_in_has_role
      route_roles_spec)

theorem role_gate_witness:
  "get_current_user demo_env demo_db ''tok-viewer'' = Inr demo_viewer
   \<and> \<not> has_role demo_viewer (spec_allowed_roles (operation_of (CreateReferral demo_referral_in)))
   \<and> handle_request demo_env ''tok-viewer'' (CreateReferral demo_referral_in) demo_db =
       (Inl (HTTPException 403 ''Insufficient permissions'' []), demo_db)
   \<and> has_role demo_viewer (spec_allowed_roles (operation_of ListReferrals))
   \<and> handle_request demo_env ''tok-viewer'' ListReferrals demo_db =
       endpoint demo_env ListReferrals demo_viewer demo_db"
  using role_gate[OF demo_viewer_resolved, of "CreateReferral demo_referral_in"]
        role_gate[OF demo_viewer_resolved, of ListReferrals]
  by (simp add: demo_viewer_resolved has_role_def demo_viewer_def dict_get_def)

section \<open>Access resolution\<close>

lemma handle_request_unresolved:
  "get_current_user e dbs token = Inl err \<Longrightarrow> handle_request e token req dbs = (Inl err, dbs)"
  by (simp add: handle_request_def require_roles_def)

lemma jwt_decode_error_family:
  "jwt_decode e token key algorithms = Inl err \<Longrightarrow> is_JWTError err"
  by (auto simp: jwt_decode_def split: option.splits if_splits val.splits)

lemma jwt_decode_rejects:
  assumes "read_jws e token = None
         \<or> (\<exists>j. read_jws e token = Some j
                \<and> (jws_key j \<noteq> key \<or> jws_payload j = None
                    \<or> (\<exists>claims t. jws_payload j = Some claims
                           \<and> map_of claims ''exp'' = Some (VInt t) \<and> t < int (clock e 0))))"
  shows "\<exists>err. jwt_decode e token key algorithms = Inl err"
  using assms by (auto simp: jwt_decode_def)

lemma get_current_user_rejected:
  "jwt_decode e token (SECRET_KEY e) [ALGORITHM] = Inl err \<Longrightarrow>
   get_current_user e dbs token = Inl credentials_exception"
  using jwt_decode_error_family[of e token "SECRET_KEY e" "[ALGORITHM]" err]
  by (simp add: get_current_user_def)

lemma get_current_user_incomplete:
  "jwt_decode e token (SECRET_KEY e) [ALGORITHM] = Inr payload \<Longrightarrow>
   dict_get payload ''sub'' = VNone \<or> dict_get payload ''role'' = VNone \<Longrightarrow>
   get_current_user e dbs token = Inl credentials_exception"
  by (auto simp: get_current_user_def Let_def)

lemma get_current_user_no_user:
  "jwt_decode e token (SECRET_KEY e) [ALGORITHM] = Inr payload \<Longrightarrow>
   ObjectId (dict_get payload ''sub'') = Inr oid \<Longrightarrow>
   find_one (user_coll dbs) ''_id'' (VOid oid) = None
     \<or> (\<exists>u. find_one (user_coll dbs) ''_id'' (VOid oid) = Some u
            \<and> map_of u ''is_active'' = Some (VBool False)) \<Longrightarrow>
   get_current_user e dbs token = Inl credentials_exception"
  by (auto simp: get_current_user_def Let_def dict_get_default_def)

lemma get_current_user_bad_subject:
  "jwt_decode e token (SECRET_KEY e) [ALGORITHM] = Inr payload \<Longrightarrow>
   dict_get payload ''sub'' = VStr s \<Longrightarrow> dict_get payload ''role'' \<noteq> VNone \<Longrightarrow>
   ObjectId (VStr s) = Inl err \<Longrightarrow>
   get_current_user e dbs token = Inl InvalidId"
  by (auto simp: get_current_user_def Let_def split: if_splits option.splits)

text \<open>
  C2 (as amended). Access resolution ends in 401 with the Bearer challenge, and so does
  every protected request, whenever the bearer string is no signed token, it is signed
  with another key than the secret, its payload is malformed, the clock of the request is
  past the expiry its payload encodes (whatever else the payload holds), the verified
  payload lacks the subject or the role, or the subject is a well-formed ObjectId whose
  user record is absent or has \<open>is_active\<close> false. When the token verifies and carries a
  role and a subject string that is not a well-formed ObjectId, the outcome is not the
  401 but the uncaught \<open>InvalidId\<close>.
\<close>

theorem unauthorized_cases:
  "((read_jws e token = None
      \<or> (\<exists>j. read_jws e token = Some j
             \<and> (jws_key j \<noteq> SECRET_KEY e \<or> jws_payload j = None
                 \<or> (\<exists>claims t. jws_payload j = Some claims
                        \<and> map_of claims ''exp'' = Some (VInt t) \<and> t < int (clock e 0))))
      \<or> (\<exists>payload. jwt_decode e token (SECRET_KEY e) [ALGORITHM] = Inr payload
             \<and> (dict_get payload ''sub'' = VNone \<or> dict_get payload ''role'' = VNone))
      \<or> (\<exists>payload oid. jwt_decode e token (SECRET_KEY e) [ALGORITHM] = Inr payload
             \<and> ObjectId (dict_get payload ''sub'') = Inr oid
             \<and> (find_one (user_coll dbs) ''_id'' (VOid oid) = None
                 \<or> (\<exists>u. find_one (user_coll dbs) ''_id'' (VOid oid) = Some u
                        \<and> map_of u ''is_active'' = Some (VBool False)))))
     \<longrightarrow> get_current_user e dbs token =
           Inl (HTTPException 401 ''Could not validate credentials'' [(''WWW-Authenticate'', ''Bearer'')])
         \<and> handle_request e token req dbs =
           (Inl (HTTPException 401 ''Could not validate credentials'' [(''WWW-Authenticate'', ''Bearer'')]),
            dbs))
   \<and> (\<forall>payload s. jwt_decode e token (SECRET_KEY e) [ALGORITHM] = Inr payload
          \<and> dict_get payload ''sub'' = VStr s \<and> dict_get payload ''role'' \<noteq> VNone
          \<and> (\<exists>err. ObjectId (VStr s) = Inl err)
        \<longrightarrow> get_current_user e dbs token = Inl InvalidId
            \<and> handle_request e token req dbs = (Inl InvalidId, dbs))"
proof (intro conjI impI allI)
  assume a: "read_jws e token = None
      \<or> (\<exists>j. read_jws e token = Some j
             \<and> (jws_key j \<noteq> SECRET_KEY e \<or> jws_payload j = None
                 \<or> (\<exists>claims t. jws_payload j = Some claims
                        \<and> map_of claims ''exp'' = Some (VInt t) \<and> t < int (clock e 0))))
      \<or> (\<exists>payload. jwt_decode e token (SECRET_KEY e) [ALGORITHM] = Inr payload
             \<and> (dict_get payload ''sub'' = VNone \<or> dict_get payload ''role'' = VNone))
      \<or> (\<exists>payload oid. jwt_decode e token (SECRET_KEY e) [ALGORITHM] = Inr payload
             \<and> ObjectId (dict_get payload ''sub'') = Inr oid
             \<and> (find_one (user_coll dbs) ''_id'' (VOid oid) = None
                 \<or> (\<exists>u. find_one (user_coll dbs) ''_id'' (VOid oid) = Some u
                        \<and> map_of u ''is_active'' = Some (VBool False))))"
  have g: "get_current_user e dbs token = Inl credentials_exception"
    using a jwt_decode_rejects[of e token "SECRET_KEY e" "[ALGORITHM]"]
      get_current_user_rejected[of e token _ dbs]
      get_current_user_incomplete[of e token _ dbs]
      get_current_user_no_user[of e token _ _ dbs]
    by blast
  then show "get_current_user e dbs token =
           Inl (HTTPException 401 ''Could not validate credentials'' [(''WWW-Authenticate'', ''Bearer'')])"
    by (simp add: credentials_exception_def)
  from g show "handle_request e token req dbs =
           (Inl (HTTPException 401 ''Could not validate credentials'' [(''WWW-Authenticate'', ''Bearer'')]),
            dbs)"
    by (simp add: handle_request_unresolved credentials_exception_def)
next
  fix payload s
  assume b: "jwt_decode e token (SECRET_KEY e) [ALGORITHM] = Inr payload
          \<and> dict_get payload ''sub'' = VStr s \<and> dict_get payload ''role'' \<noteq> VNone
          \<and> (\<exists>err. ObjectId (VStr s) = Inl err)"
  then have g: "get_current_user e dbs token = Inl InvalidId"
    using get_current_user_bad_subject[of e token payload s _ dbs] by blast
  then show "get_current_user e dbs token = Inl InvalidId" .
  from g show "handle_request e token req dbs = (Inl InvalidId, dbs)"
    by (simp add: handle_request_unresolved)
qed

lemma demo_decoded:
  "jwt_decode demo_env ''tok-admin'' (SECRET_KEY demo_env) [ALGORITHM] =
     Inr [(''sub'', VStr ''0000000000000000000000a0''), (''role'', VStr ''admin''), (''exp'', VInt 5000)]"
  "jwt_decode demo_env ''tok-viewer'' (SECRET_KEY demo_env) [ALGORITHM] =
     Inr [(''sub'', VStr ''0000000000000000000000a1''), (''role'', VStr ''viewer''), (''exp'', VInt 5000)]"
  "jwt_decode demo_env ''tok-inactive'' (SECRET_KEY demo_env) [ALGORITHM] =
     Inr [(''sub'', VStr ''0000000000000000000000a3''), (''role'', VStr ''admin''), (''exp'', VInt 5000)]"
  "jwt_decode demo_env ''tok-ghost'' (SECRET_KEY demo_env) [ALGORITHM] =
     Inr [(''sub'', VStr ''0000000000000000000000af''), (''role'', VStr ''admin''), (''exp'', VInt 5000)]"
  "jwt_decode demo_env ''tok-badsub'' (SECRET_KEY demo_env) [ALGORITHM] =
     Inr [(''sub'', VStr ''xyz''), (''role'', VStr ''admin''), (''exp'', VInt 5000)]"
  by (simp_all add: jwt_decode_def ALGORITHM_def demo_env_def demo_tokens_def demo_signed_def)

lemma demo_subjects:
  "ObjectId (dict_get [(''sub'', VStr ''0000000000000000000000a0''), (''role'', VStr ''admin''),
                       (''exp'', VInt 5000)] ''sub'') = Inr ''0000000000000000000000a0''"
  "ObjectId (dict_get [(''sub'', VStr ''0000000000000000000000a1''), (''role'', VStr ''viewer''),
                       (''exp'', VInt 5000)] ''sub'') = Inr ''0000000000000000000000a1''"
  "ObjectId (dict_get [(''sub'', VStr ''0000000000000000000000a3''), (''role'', VStr ''admin''),
                       (''exp'', VInt 5000)] ''sub'') = Inr ''0000000000000000000000a3''"
  "ObjectId (dict_get [(''sub'', VStr ''0000000000000000000000af''), (''role'', VStr ''admin''),
                       (''exp'', VInt 5000)] ''sub'') = Inr ''0000000000000000000000af''"
  by (simp_all add: dict_get_def is_hex_def is_space_def lower_def)

lemma demo_user_records:
  "find_one (user_coll demo_db) ''_id'' (VOid ''0000000000000000000000a0'') = Some (demo_users ! 0)"
  "find_one (user_coll demo_db) ''_id'' (VOid ''0000000000000000000000a1'') = Some (demo_users ! 1)"
  "find_one (user_coll demo_db) ''_id'' (VOid ''0000000000000000000000a3'') = Some (demo_users ! 3)"
  "find_one (user_coll demo_db) ''_id'' (VOid ''0000000000000000000000af'') = None"
  by (simp_all add: demo_db_def demo_users_def find_one_def field_eq_def)

lemma demo_is_active:
  "map_of (demo_users ! 1) ''is_active'' = None"
  "map_of (demo_users ! 0) ''is_active'' = Some (VBool True)"
  "map_of (demo_users ! 3) ''is_active'' = Some (VBool False)"
  by (simp_all add: demo_users_def)

theorem unauthorized_cases_witness:
  "get_current_user demo_env demo_db ''no-token'' =
     Inl (HTTPException 401 ''Could not validate credentials'' [(''WWW-Authenticate'', ''Bearer'')])
   \<and> get_current_user demo_env demo_db ''tok-forged'' =
     Inl (HTTPException 401 ''Could not validate credentials'' [(''WWW-Authenticate'', ''Bearer'')])
   \<and> get_current_user demo_env demo_db ''tok-mangled'' =
     Inl (HTTPException 401 ''Could not validate credentials'' [(''WWW-Authenticate'', ''Bearer'')])
   \<and> get_current_user demo_env demo_db ''tok-expired'' =
     Inl (HTTPException 401 ''Could not validate credentials'' [(''WWW-Authenticate'', ''Bearer'')])
   \<and> get_current_user demo_env demo_db ''tok-ghost'' =
     Inl (HTTPException 401 ''Could not validate credentials'' [(''WWW-Authenticate'', ''Bearer'')])
   \<and> handle_request demo_env ''tok-inactive'' ListPatients demo_db =
     (Inl (HTTPException 401 ''Could not validate credentials'' [(''WWW-Authenticate'', ''Bearer'')]), demo_db)
   \<and> handle_request demo_env ''tok-badsub'' ListPatients demo_db = (Inl InvalidId, demo_db)"
proof -
  have n: "read_jws demo_env ''no-token'' = None"
    by (simp add: demo_env_def demo_tokens_def)
  have f: "\<exists>j. read_jws demo_env ''tok-forged'' = Some j \<and> jws_key j \<noteq> SECRET_KEY demo_env"
    by (simp add: demo_env_def demo_tokens_def)
  have m: "\<exists>j. read_jws demo_env ''tok-mangled'' = Some j \<and> jws_payload j = None"
    by (simp add: demo_env_def demo_tokens_def)
  have x: "\<exists>j. read_jws demo_env ''tok-expired'' = Some j
             \<and> (\<exists>claims t. jws_payload j = Some claims \<and> map_of claims ''exp'' = Some (VInt t)
                    \<and> t < int (clock demo_env 0))"
    by (simp add: demo_env_def demo_tokens_def demo_signed_def)
  have b: "dict_get [(''sub'', VStr ''xyz''), (''role'', VStr ''admin''), (''exp'', VInt 5000)] ''sub'' = VStr ''xyz''"
          "dict_get [(''sub'', VStr ''xyz''), (''role'', VStr ''admin''), (''exp'', VInt 5000)] ''role'' \<noteq> VNone"
          "\<exists>err. ObjectId (VStr ''xyz'') = Inl err"
    by (simp_all add: dict_get_def)
  have "get_current_user demo_env demo_db ''no-token'' =
     Inl (HTTPException 401 ''Could not validate credentials'' [(''WWW-Authenticate'', ''Bearer'')])"
    using unauthorized_cases[of demo_env "''no-token''" demo_db ListPatients] n by blast
  moreover have "get_current_user demo_env demo_db ''tok-forged'' =
     Inl (HTTPException 401 ''Could not validate credentials'' [(''WWW-Authenticate'', ''Bearer'')])"
    using unauthorized_cases[of demo_env "''tok-forged''" demo_db ListPatients] f by blast
  moreover have "get_current_user demo_env demo_db ''tok-mangled'' =
     Inl (HTTPException 401 ''Could not validate credentials'' [(''WWW-Authenticate'', ''Bearer'')])"
    using unauthorized_cases[of demo_env "''tok-mangled''" demo_db ListPatients] m by blast
  moreover have "get_current_user demo_env demo_db ''tok-expired'' =
     Inl (HTTPException 401 ''Could not validate credentials'' [(''WWW-Authenticate'', ''Bearer'')])"
    using unauthorized_cases[of demo_env "''tok-expired''" demo_db ListPatients] x by blast
  moreover have "get_current_user demo_env demo_db ''tok-ghost'' =
     Inl (HTTPException 401 ''Could not validate credentials'' [(''WWW-Authenticate'', ''Bearer'')])"
    using unauthorized_cases[of demo_env "''tok-ghost''" demo_db ListPatients]
      demo_decoded(4) demo_subjects(4) demo_user_records(4) by blast
  moreover have "handle_request demo_env ''tok-inactive'' ListPatients demo_db =
     (Inl (HTTPException 401 ''Could not validate credentials'' [(''WWW-Authenticate'', ''Bearer'')]), demo_db)"
    using unauthorized_cases[of demo_env "''tok-inactive''" demo_db ListPatients]
      demo_decoded(3) demo_subjects(3) demo_user_records(3) demo_is_active(3) by blast
  moreover have "handle_request demo_env ''tok-badsub'' ListPatients demo_db = (Inl InvalidId, demo_db)"
    using unauthorized_cases[of demo_env "''tok-badsub''" demo_db ListPatients] demo_decoded(5) b
    by blast
  ultimately show ?thesis by blast
qed

text \<open>
  C2 as stated fails for a correctly signed, unexpired token whose subject is not a
  well-formed ObjectId: no user record has that id, yet the request ends in the uncaught
  \<open>InvalidId\<close> (a 500), not in 401. \<open>ObjectId(user_id)\<close> stands outside the \<open>try\<close> block.
\<close>

theorem malformed_subject_not_unauthorized:
  "jwt_decode demo_env ''tok-badsub'' (SECRET_KEY demo_env) [ALGORITHM] =
     Inr [(''sub'', VStr ''xyz''), (''role'', VStr ''admin''), (''exp'', VInt 5000)]
   \<and> find_one (user_coll demo_db) ''_id'' (VStr ''xyz'') = None
   \<and> get_current_user demo_env demo_db ''tok-badsub'' = Inl InvalidId
   \<and> response_status (fst (handle_request demo_env ''tok-badsub'' ListPatients demo_db)) = 500"
  by (simp add: get_current_user_def handle_request_def require_roles_def demo_eval)

text \<open>
  C10. For a token the service decodes, with a role and a subject that names a stored
  user: a user document without the \<open>is_active\<close> field is resolved exactly as one whose
  \<open>is_active\<close> is true, and a document whose \<open>is_active\<close> is false is rejected with 401.
\<close>

theorem missing_is_active_defaults_true:
  assumes "jwt_decode e token (SECRET_KEY e) [ALGORITHM] = Inr payload"
      and "dict_get payload ''role'' \<noteq> VNone"
      and "ObjectId (dict_get payload ''sub'') = Inr oid"
      and "find_one (user_coll dbs) ''_id'' (VOid oid) = Some u"
  shows "(map_of u ''is_active'' = None \<longrightarrow> get_current_user e dbs token = Inr (serialize_doc e u))
       \<and> (map_of u ''is_active'' = Some (VBool True) \<longrightarrow>
             get_current_user e dbs token = Inr (serialize_doc e u))
       \<and> (map_of u ''is_active'' = Some (VBool False) \<longrightarrow>
             get_current_user e dbs token =
               Inl (HTTPException 401 ''Could not validate credentials'' [(''WWW-Authenticate'', ''Bearer'')]))"
proof -
  from assms(3) have s: "dict_get payload ''sub'' \<noteq> VNone" by auto
  from find_one_nonempty[OF assms(4)] have u: "u \<noteq> []" by simp
  show ?thesis
    using assms s u
    by (simp add: get_current_user_def Let_def dict_get_default_def credentials_exception_def)
qed

theorem missing_is_active_defaults_true_witness:
  "map_of (demo_users ! 1) ''is_active'' = None
   \<and> get_current_user demo_env demo_db ''tok-viewer'' = Inr (serialize_doc demo_env (demo_users ! 1))
   \<and> map_of (demo_users ! 0) ''is_active'' = Some (VBool True)
   \<and> get_current_user demo_env demo_db ''tok-admin'' = Inr (serialize_doc demo_env (demo_users ! 0))
   \<and> map_of (demo_users ! 3) ''is_active'' = Some (VBool False)
   \<and> get_current_user demo_env demo_db ''tok-inactive'' =
       Inl (HTTPException 401 ''Could not validate credentials'' [(''WWW-Authenticate'', ''Bearer'')])"
proof -
  have vr: "dict_get [(''sub'', VStr ''0000000000000000000000a1''), (''role'', VStr ''viewer''),
                      (''exp'', VInt 5000)] ''role'' \<noteq> VNone"
    and ar: "dict_get [(''sub'', VStr ''0000000000000000000000a0''), (''role'', VStr ''admin''),
                       (''exp'', VInt 5000)] ''role'' \<noteq> VNone"
    and ir: "dict_get [(''sub'', VStr ''0000000000000000000000a3''), (''role'', VStr ''admin''),
                       (''exp'', VInt 5000)] ''role'' \<noteq> VNone"
    by (simp_all add: dict_get_def)
  show ?thesis
    using missing_is_active_defaults_true[OF demo_decoded(2) vr demo_subjects(2) demo_user_records(2)]
          missing_is_active_defaults_true[OF demo_decoded(1) ar demo_subjects(1) demo_user_records(1)]
          missing_is_active_defaults_true[OF demo_decoded(3) ir demo_subjects(3) demo_user_records(3)]
          demo_is_active
    by simp
qed

section \<open>Login\<close>

text \<open>
  C3 (as amended). A login with an email no user has and a login with a known email on
  which the hash check returns false end in the same outcome, whatever the stores, the
  environments and the passwords: the 400 error with the one detail
  \<open>Incorrect email or password\<close> and no headers. A login on which the hash check raises
  is outside this statement.
\<close>

theorem login_failures_indistinguishable:
  assumes "find_one (user_coll dbs) ''email'' (VStr unknown_email) = None"
      and "find_one (user_coll dbs') ''email'' (VStr known_email) = Some u"
      and "verify_password e' wrong_pw (dict_get_default u ''password_hash'' (VStr [])) = Inr False"
  shows "login e unknown_email pw dbs = login e' known_email wrong_pw dbs'
       \<and> login e unknown_email pw dbs = Inl (HTTPException 400 ''Incorrect email or password'' [])"
  using assms by (cases u) (simp_all add: login_def)

theorem login_failures_indistinguishable_witness:
  "find_one (user_coll demo_db) ''email'' (VStr ''nobody@lab.local'') = None
   \<and> find_one (user_coll demo_db) ''email'' (VStr ''root@lab.local'') = Some (demo_users ! 0)
   \<and> login demo_env ''nobody@lab.local'' ''root-pw'' demo_db = login demo_env ''root@lab.local'' ''guess'' demo_db
   \<and> login demo_env ''nobody@lab.local'' ''root-pw'' demo_db =
       Inl (HTTPException 400 ''Incorrect email or password'' [])"
proof -
  have a: "find_one (user_coll demo_db) ''email'' (VStr ''nobody@lab.local'') = None"
    and b: "find_one (user_coll demo_db) ''email'' (VStr ''root@lab.local'') = Some (demo_users ! 0)"
    by (simp_all add: demo_db_def demo_users_def find_one_def field_eq_def)
  have c: "verify_password demo_env ''guess'' (dict_get_default (demo_users ! 0) ''password_hash'' (VStr [])) = Inr False"
    by (simp add: verify_password_def demo_env_def demo_users_def dict_get_default_def)
  show ?thesis
    using login_failures_indistinguishable[OF a b c, of demo_env "''root-pw''"] a b by blast
qed

text \<open>
  C3 as stated fails twice. It names the outcome Unauthorized, which the interface maps
  to 401 with a \<open>WWW-Authenticate\<close> challenge, and both failed logins are answered with
  400 and no header. And it speaks of every wrong password for a known email: Olaf's
  document has no password hash, the hash check raises on the empty default, and the
  login with his email ends in that uncaught error (a 500), which is not the outcome of
  the login with an unknown email.
\<close>

theorem login_failure_is_not_401:
  "response_status (login demo_env ''nobody@lab.local'' ''root-pw'' demo_db) = 400
   \<and> response_status (login demo_env ''root@lab.local'' ''guess'' demo_db) = 400
   \<and> login demo_env ''nobody@lab.local'' ''root-pw'' demo_db =
       Inl (HTTPException 400 ''Incorrect email or password'' [])
   \<and> login demo_env ''olaf@lab.local'' ''root-pw'' demo_db = Inl UnknownHashError
   \<and> response_status (login demo_env ''olaf@lab.local'' ''root-pw'' demo_db) = 500"
  by (simp add: login_def verify_password_def demo_env_def demo_db_def demo_users_def
      find_one_def field_eq_def dict_get_default_def)

section \<open>Creating a referral\<close>

lemma demo_staff_resolved:
  "get_current_user demo_env demo_db ''tok-staff'' =
     Inr [(''name'', VStr ''Hana''), (''email'', VStr ''hana@lab.local''),
          (''password_hash'', VStr ''h:hana-pw''), (''role'', VStr ''hospital_staff''),
          (''is_active'', VBool True), (''id'', VStr ''0000000000000000000000a4'')]"
  by (simp add: get_current_user_def demo_eval)

text \<open>
  C4. The hospital-staff user Hana creates a referral without \<open>ordered_by\<close>. The stored
  and the returned referral have status \<open>pending\<close>, but their \<open>ordered_by\<close> is null, not
  Hana's id: \<open>model_dump\<close> always yields the key \<open>ordered_by\<close>, so \<open>setdefault\<close> never
  writes the caller's id.
\<close>

theorem create_referral_ordered_by_not_defaulted:
  "ReferralIn.ordered_by demo_referral_in = None
   \<and> get_current_user demo_env demo_db ''tok-staff'' =
       Inr [(''name'', VStr ''Hana''), (''email'', VStr ''hana@lab.local''),
            (''password_hash'', VStr ''h:hana-pw''), (''role'', VStr ''hospital_staff''),
            (''is_active'', VBool True), (''id'', VStr ''0000000000000000000000a4'')]
   \<and> handle_request demo_env ''tok-staff'' (CreateReferral demo_referral_in) demo_db =
       (Inr (VDict [(''patient_id'', VStr ''0000000000000000000000b0''), (''hospital_id'', VNone),
                    (''ordered_by'', VNone), (''tests'', VList [VStr ''CBC'']),
                    (''priority'', VStr ''normal''), (''notes'', VNone),
                    (''status'', VStr ''pending''), (''created_at'', VStr ''T''),
                    (''updated_at'', VStr ''T''), (''id'', VStr ''0000000000000000000000e0'')]),
        demo_db\<lparr>referral_coll :=
          [demo_referral,
           [(''patient_id'', VStr ''0000000000000000000000b0''), (''hospital_id'', VNone),
            (''ordered_by'', VNone), (''tests'', VList [VStr ''CBC'']),
            (''priority'', VStr ''normal''), (''notes'', VNone),
            (''status'', VStr ''pending''), (''created_at'', VTime 1000),
            (''updated_at'', VTime 1001), (''_id'', VOid ''0000000000000000000000e0'')]]\<rparr>)"
proof -
  let ?u = "[(''name'', VStr ''Hana''), (''email'', VStr ''hana@lab.local''),
          (''password_hash'', VStr ''h:hana-pw''), (''role'', VStr ''hospital_staff''),
          (''is_active'', VBool True), (''id'', VStr ''0000000000000000000000a4'')]"
  have h: "handle_request demo_env ''tok-staff'' (CreateReferral demo_referral_in) demo_db =
             create_referral demo_env demo_referral_in ?u demo_db"
    by (simp add: handle_request_def require_roles_def role_checker_def role_in_def
        demo_staff_resolved dict_get_def)
  have c: "create_referral demo_env demo_referral_in ?u demo_db =
       (Inr (VDict [(''patient_id'', VStr ''0000000000000000000000b0''), (''hospital_id'', VNone),
                    (''ordered_by'', VNone), (''tests'', VList [VStr ''CBC'']),
                    (''priority'', VStr ''normal''), (''notes'', VNone),
                    (''status'', VStr ''pending''), (''created_at'', VStr ''T''),
                    (''updated_at'', VStr ''T''), (''id'', VStr ''0000000000000000000000e0'')]),
        demo_db\<lparr>referral_coll :=
          [demo_referral,
           [(''patient_id'', VStr ''0000000000000000000000b0''), (''hospital_id'', VNone),
            (''ordered_by'', VNone), (''tests'', VList [VStr ''CBC'']),
            (''priority'', VStr ''normal''), (''notes'', VNone),
            (''status'', VStr ''pending''), (''created_at'', VTime 1000),
            (''updated_at'', VTime 1001), (''_id'', VOid ''0000000000000000000000e0'')]]\<rparr>)"
    by (simp add: create_referral_def dump_referral_def demo_referral_in_def
      setdefault_def stamps_def insert_one_def opt_str_def demo_referral_def
      dict_get_def dict_set_def serialize_doc_def demo_env_def demo_db_def Let_def)
  have o: "ReferralIn.ordered_by demo_referral_in = None"
    by (simp add: demo_referral_in_def)
  show ?thesis
    by (simp add: h c o demo_staff_resolved dict_get_def)
qed

section \<open>Malformed identifiers\<close>

lemma objectid_str_error: "ObjectId (VStr i) = Inl err \<Longrightarrow> err = InvalidId"
  by (auto split: if_splits option.splits)

lemma update_by_id_invalid:
  "ObjectId (VStr i) = Inl err \<Longrightarrow> update_by_id e coll i upd detail = (Inl err, coll)"
  by (simp add: update_by_id_def)

lemma db_same_patient: "dbs\<lparr>patient_coll := patient_coll dbs\<rparr> = dbs"
  and db_same_test: "dbs\<lparr>testcatalog_coll := testcatalog_coll dbs\<rparr> = dbs"
  and db_same_referral: "dbs\<lparr>referral_coll := referral_coll dbs\<rparr> = dbs"
  and db_same_result: "dbs\<lparr>testresult_coll := testresult_coll dbs\<rparr> = dbs"
  by simp_all

lemma endpoint_invalid_id:
  assumes "path_id req = Some i" and "ObjectId (VStr i) = Inl err"
  shows "endpoint e req u dbs = (Inl err, dbs)"
  using assms
  by (cases req)
     (simp_all add: get_patient_def update_patient_def delete_patient_def update_test_def
        delete_test_def update_referral_def update_result_def update_by_id_invalid)

text \<open>
  C5 (as amended). When the path identifier of a request is not a well-formed ObjectId
  and the caller passes the role check, the endpoint raises \<open>InvalidId\<close> before it touches
  the store, and nothing catches it: the outcome of the request is that exception (a 500
  for the client), and the store is unchanged.
\<close>

theorem malformed_id_propagates:
  assumes "path_id req = Some i"
      and "ObjectId (VStr i) = Inl err"
      and "require_roles (route_roles req) e dbs token = Inr u"
  shows "handle_request e token req dbs = (Inl InvalidId, dbs)
       \<and> response_status (fst (handle_request e token req dbs)) = 500"
  using assms objectid_str_error[OF assms(2)]
  by (simp add: handle_request_def endpoint_invalid_id)

lemma demo_admin_resolved:
  "get_current_user demo_env demo_db ''tok-admin'' =
     Inr [(''name'', VStr ''Root''), (''email'', VStr ''root@lab.local''),
          (''password_hash'', VStr ''h:root-pw''), (''role'', VStr ''admin''),
          (''is_active'', VBool True), (''id'', VStr ''0000000000000000000000a0'')]"
  by (simp add: get_current_user_def demo_eval)

lemma demo_admin_roles:
  "''admin'' \<in> set roles \<Longrightarrow>
   require_roles roles demo_env demo_db ''tok-admin'' =
     Inr [(''name'', VStr ''Root''), (''email'', VStr ''root@lab.local''),
          (''password_hash'', VStr ''h:root-pw''), (''role'', VStr ''admin''),
          (''is_active'', VBool True), (''id'', VStr ''0000000000000000000000a0'')]"
  by (simp add: require_roles_def demo_admin_resolved role_checker_def role_in_def dict_get_def)

theorem malformed_id_propagates_witness:
  "path_id (GetPatient ''abc'') = Some ''abc'' \<and> ObjectId (VStr ''abc'') = Inl InvalidId
   \<and> handle_request demo_env ''tok-admin'' (GetPatient ''abc'') demo_db = (Inl InvalidId, demo_db)
   \<and> handle_request demo_env ''tok-admin'' (UpdateReferral ''not-an-object-id'' demo_verify) demo_db
        = (Inl InvalidId, demo_db)"
proof -
  have a: "ObjectId (VStr ''abc'') = Inl InvalidId" by simp
  have b: "ObjectId (VStr ''not-an-object-id'') = Inl InvalidId" by simp
  show ?thesis
    using malformed_id_propagates[of "GetPatient ''abc''" "''abc''" InvalidId demo_env demo_db "''tok-admin''", OF _ a demo_admin_roles]
          malformed_id_propagates[of "UpdateReferral ''not-an-object-id'' demo_verify" "''not-an-object-id''" InvalidId demo_env demo_db "''tok-admin''", OF _ b demo_admin_roles]
    by simp
qed

text \<open>
  C5 as stated fails: for the identifier \<open>abc\<close> the read of a patient and the update of a
  referral end in the uncaught \<open>InvalidId\<close>, answered with 500, neither 404 nor 400.
\<close>

theorem malformed_id_not_caught:
  "handle_request demo_env ''tok-admin'' (GetPatient ''abc'') demo_db = (Inl InvalidId, demo_db)
   \<and> response_status (fst (handle_request demo_env ''tok-admin'' (GetPatient ''abc'') demo_db)) = 500
   \<and> response_status (fst (handle_request demo_env ''tok-admin'' (UpdateReferral ''abc'' demo_verify) demo_db)) = 500"
  by (simp add: handle_request_def demo_admin_roles get_patient_def update_referral_def
      update_by_id_def)

section \<open>Updates\<close>

lemma update_one_error: "update_one coll oid upd = Inl err \<Longrightarrow> err = WriteError"
  by (induction coll) (auto simp: Let_def split: if_splits sum.splits)

lemma update_by_id_missing:
  assumes "ObjectId (VStr i) = Inr oid" and "find_one coll ''_id'' (VOid oid) = None"
  shows "update_by_id e coll i upd detail = (Inl (HTTPException 404 detail []), coll)"
  using assms by (simp add: update_by_id_def update_one_no_match not_found_def)

lemma update_by_id_found:
  assumes "ObjectId (VStr i) = Inr oid" and "find_one coll ''_id'' (VOid oid) = Some d"
  shows "update_by_id e coll i upd detail = (Inl WriteError, coll)
       \<or> (\<exists>coll'. update_by_id e coll i upd detail =
                     (Inr (VDict (serialize_doc e (dict_update d upd))), coll')
                 \<and> find_one coll' ''_id'' (VOid oid) = Some (dict_update d upd))"
proof (cases "update_one coll oid upd")
  case (Inl err)
  with update_one_error[OF Inl] assms(1) show ?thesis by (simp add: update_by_id_def)
next
  case (Inr coll')
  from update_one_match[OF assms(2) Inr]
  have f: "find_one coll' ''_id'' (VOid oid) = Some (dict_update d upd)" .
  from find_one_nonempty[OF f] obtain x xs where "dict_update d upd = x # xs"
    by (cases "dict_update d upd") simp_all
  with f Inr assms(1) show ?thesis by (simp add: update_by_id_def)
qed

lemma update_by_id_found_ok:
  assumes "ObjectId (VStr i) = Inr oid" and "find_one coll ''_id'' (VOid oid) = Some d"
      and "''_id'' \<notin> fst ` set upd"
  shows "\<exists>coll'. update_by_id e coll i upd detail =
                     (Inr (VDict (serialize_doc e (dict_update d upd))), coll')
                 \<and> find_one coll' ''_id'' (VOid oid) = Some (dict_update d upd)"
proof -
  from update_one_ok[OF assms(2,3)] obtain c where c: "update_one coll oid upd = Inr c" by blast
  from update_one_match[OF assms(2) c]
  have f: "find_one c ''_id'' (VOid oid) = Some (dict_update d upd)" .
  from find_one_nonempty[OF f] obtain x xs where "dict_update d upd = x # xs"
    by (cases "dict_update d upd") simp_all
  with f c assms(1) show ?thesis by (simp add: update_by_id_def)
qed

lemma stamped_keys:
  "fst ` set (dict_set ''updated_at'' v upd) = insert ''updated_at'' (fst ` set upd)"
  by (simp add: dict_set_def dom_update)

lemma stamped_distinct:
  "distinct (map fst upd) \<Longrightarrow> distinct (map fst (dict_set ''updated_at'' v upd))"
  by (simp add: dict_set_def distinct_update)

lemma stamped_merge:
  assumes "distinct (map fst upd)"
  shows "map_of (dict_update d (dict_set ''updated_at'' v upd)) =
           (map_of d ++ map_of upd)(''updated_at'' \<mapsto> v)"
  by (simp add: map_of_dict_update[OF stamped_distinct[OF assms]] map_of_dict_set)

lemma coll_of_put_coll: "coll_of res (put_coll res c dbs) = c"
  by (cases res) simp_all

lemma put_coll_same: "put_coll res (coll_of res dbs) dbs = dbs"
  by (cases res) simp_all

lemma endpoint_update:
  assumes "update_target req = Some (res, i, upd, detail)"
  shows "endpoint e req u dbs =
           (fst (update_by_id e (coll_of res dbs) i (dict_set ''updated_at'' (VTime (clock e 0)) upd) detail),
            put_coll res (snd (update_by_id e (coll_of res dbs) i
                                 (dict_set ''updated_at'' (VTime (clock e 0)) upd) detail)) dbs)"
  using assms
  by (cases req)
     (auto simp: update_patient_def update_test_def update_referral_def update_result_def
        split: prod.splits)

lemma handle_request_authorized:
  "require_roles (route_roles req) e dbs token = Inr u \<Longrightarrow>
   handle_request e token req dbs = endpoint e req u dbs"
  by (simp add: handle_request_def)

lemma referral_coll_put_result: "referral_coll (put_coll TestResult c dbs) = referral_coll dbs"
  by simp

lemma update_by_id_success:
  assumes "update_by_id e coll i upd detail = (Inr r, coll')"
  shows "\<exists>oid d. ObjectId (VStr i) = Inr oid \<and> find_one coll ''_id'' (VOid oid) = Some d
           \<and> r = VDict (serialize_doc e (dict_update d upd))
           \<and> find_one coll' ''_id'' (VOid oid) = Some (dict_update d upd)"
proof (cases "ObjectId (VStr i)")
  case (Inl err)
  with assms show ?thesis by (simp add: update_by_id_invalid)
next
  case (Inr oid)
  show ?thesis
  proof (cases "find_one coll ''_id'' (VOid oid)")
    case None
    with update_by_id_missing[OF Inr None, of e upd detail] assms show ?thesis by simp
  next
    case (Some d)
    with update_by_id_found[OF Inr Some, of e upd detail] assms Inr show ?thesis by auto
  qed
qed

lemma demo_staff_roles:
  "''hospital_staff'' \<in> set roles \<Longrightarrow>
   require_roles roles demo_env demo_db ''tok-staff'' =
     Inr [(''name'', VStr ''Hana''), (''email'', VStr ''hana@lab.local''),
          (''password_hash'', VStr ''h:hana-pw''), (''role'', VStr ''hospital_staff''),
          (''is_active'', VBool True), (''id'', VStr ''0000000000000000000000a4'')]"
  by (simp add: require_roles_def demo_staff_resolved role_checker_def role_in_def dict_get_def)

lemma demo_object_ids:
  "ObjectId (VStr ''0000000000000000000000ff'') = Inr ''0000000000000000000000ff''"
  "ObjectId (VStr ''0000000000000000000000b0'') = Inr ''0000000000000000000000b0''"
  "ObjectId (VStr ''0000000000000000000000d0'') = Inr ''0000000000000000000000d0''"
  by (simp_all add: is_hex_def is_space_def lower_def)

lemma demo_absent:
  "find_one (coll_of res demo_db) ''_id'' (VOid ''0000000000000000000000ff'') = None"
  by (cases res)
     (simp_all add: demo_db_def demo_patient_def demo_referral_def demo_result_def find_one_def
        field_eq_def)

lemma demo_present:
  "find_one (coll_of Patient demo_db) ''_id'' (VOid ''0000000000000000000000b0'') = Some demo_patient"
  "find_one (coll_of TestResult demo_db) ''_id'' (VOid ''0000000000000000000000d0'') = Some demo_result"
  by (simp_all add: demo_db_def demo_patient_def demo_result_def find_one_def field_eq_def)

lemma demo_maps_ok:
  "distinct (map fst demo_verify)" "top_level demo_verify" "''_id'' \<notin> fst ` set demo_verify"
  "distinct (map fst (dump_patient demo_patient_in))" "top_level (dump_patient demo_patient_in)"
  "''_id'' \<notin> fst ` set (dump_patient demo_patient_in)"
  "top_level (dump_test demo_test_in)"
  by (simp_all add: demo_verify_def dump_patient_def dump_test_def top_level_def)

text \<open>
  C7. For each of the four resource types, an update by a caller who passes the role
  check, on a well-formed id that no document of the collection has, ends in 404 with
  the detail of that resource, and the store is unchanged.
\<close>

theorem update_missing_is_not_found:
  assumes "update_target req = Some (res, i, upd, detail)"
      and "ObjectId (VStr i) = Inr oid"
      and "find_one (coll_of res dbs) ''_id'' (VOid oid) = None"
      and "top_level upd"
      and "require_roles (route_roles req) e dbs token = Inr u"
  shows "handle_request e token req dbs = (Inl (HTTPException 404 detail []), dbs)"
  by (simp add: handle_request_authorized[OF assms(5)] endpoint_update[OF assms(1)]
      update_by_id_missing[OF assms(2,3)] put_coll_same)

theorem update_missing_is_not_found_witness:
  "handle_request demo_env ''tok-admin'' (UpdatePatient ''0000000000000000000000ff'' demo_patient_in) demo_db
     = (Inl (HTTPException 404 ''Patient not found'' []), demo_db)
   \<and> handle_request demo_env ''tok-admin'' (UpdateTest ''0000000000000000000000ff'' demo_test_in) demo_db
     = (Inl (HTTPException 404 ''Test not found'' []), demo_db)
   \<and> handle_request demo_env ''tok-admin'' (UpdateReferral ''0000000000000000000000ff'' demo_verify) demo_db
     = (Inl (HTTPException 404 ''Referral not found'' []), demo_db)
   \<and> handle_request demo_env ''tok-admin'' (UpdateResult ''0000000000000000000000ff'' demo_verify) demo_db
     = (Inl (HTTPException 404 ''Result not found'' []), demo_db)"
  using update_missing_is_not_found[of "UpdatePatient ''0000000000000000000000ff'' demo_patient_in"
          Patient _ _ _ _ demo_db demo_env "''tok-admin''",
          OF _ demo_object_ids(1) demo_absent demo_maps_ok(5) demo_admin_roles]
        update_missing_is_not_found[of "UpdateTest ''0000000000000000000000ff'' demo_test_in"
          TestCatalog _ _ _ _ demo_db demo_env "''tok-admin''",
          OF _ demo_object_ids(1) demo_absent demo_maps_ok(7) demo_admin_roles]
        update_missing_is_not_found[of "UpdateReferral ''0000000000000000000000ff'' demo_verify"
          Referral _ _ _ _ demo_db demo_env "''tok-admin''",
          OF _ demo_object_ids(1) demo_absent demo_maps_ok(2) demo_admin_roles]
        update_missing_is_not_found[of "UpdateResult ''0000000000000000000000ff'' demo_verify"
          TestResult _ _ _ _ demo_db demo_env "''tok-admin''",
          OF _ demo_object_ids(1) demo_absent demo_maps_ok(2) demo_admin_roles]
  by simp

text \<open>
  C6 (as amended). An update of an existing document by a caller who passes the role
  check succeeds, and the stored document afterwards is the prior one overwritten by the
  fields the endpoint hands to the store, with \<open>updated_at\<close> set to the time of the
  request: a field outside those fields keeps its prior value. For Referral and
  TestResult those fields are the client's map; for Patient and TestCatalog they are the
  dump of the whole body model, so every model field is written, with null for an
  optional field the client left out.
\<close>

theorem update_writes_its_fields:
  assumes "update_target req = Some (res, i, upd, detail)"
      and "ObjectId (VStr i) = Inr oid"
      and "find_one (coll_of res dbs) ''_id'' (VOid oid) = Some d"
      and "distinct (map fst upd)" and "top_level upd" and "''_id'' \<notin> fst ` set upd"
      and "require_roles (route_roles req) e dbs token = Inr u"
  shows "\<exists>d' dbs'. handle_request e token req dbs = (Inr (VDict (serialize_doc e d')), dbs')
           \<and> find_one (coll_of res dbs') ''_id'' (VOid oid) = Some d'
           \<and> map_of d' = (map_of d ++ map_of upd)(''updated_at'' \<mapsto> VTime (clock e 0))"
proof -
  let ?upd = "dict_set ''updated_at'' (VTime (clock e 0)) upd"
  from assms(6) have "''_id'' \<notin> fst ` set ?upd" by (simp add: stamped_keys)
  from update_by_id_found_ok[OF assms(2,3) this, of e detail]
  obtain c where c: "update_by_id e (coll_of res dbs) i ?upd detail =
                       (Inr (VDict (serialize_doc e (dict_update d ?upd))), c)"
             and f: "find_one c ''_id'' (VOid oid) = Some (dict_update d ?upd)"
    by blast
  have "handle_request e token req dbs =
          (Inr (VDict (serialize_doc e (dict_update d ?upd))), put_coll res c dbs)"
    by (simp add: handle_request_authorized[OF assms(7)] endpoint_update[OF assms(1)] c)
  moreover have "find_one (coll_of res (put_coll res c dbs)) ''_id'' (VOid oid) = Some (dict_update d ?upd)"
    by (simp add: coll_of_put_coll f)
  moreover note stamped_merge[OF assms(4), of d "VTime (clock e 0)"]
  ultimately show ?thesis by blast
qed

theorem update_writes_its_fields_witness:
  "(\<exists>d' dbs'. handle_request demo_env ''tok-staff''
                 (UpdatePatient ''0000000000000000000000b0'' demo_patient_in) demo_db
                   = (Inr (VDict (serialize_doc demo_env d')), dbs')
       \<and> find_one (coll_of Patient dbs') ''_id'' (VOid ''0000000000000000000000b0'') = Some d'
       \<and> map_of d' = (map_of demo_patient ++ map_of (dump_patient demo_patient_in))
                        (''updated_at'' \<mapsto> VTime (clock demo_env 0)))
   \<and> (\<exists>d' dbs'. handle_request demo_env ''tok-admin''
                 (UpdateResult ''0000000000000000000000d0'' demo_verify) demo_db
                   = (Inr (VDict (serialize_doc demo_env d')), dbs')
       \<and> find_one (coll_of TestResult dbs') ''_id'' (VOid ''0000000000000000000000d0'') = Some d'
       \<and> map_of d' = (map_of demo_result ++ map_of demo_verify)
                        (''updated_at'' \<mapsto> VTime (clock demo_env 0)))"
  using update_writes_its_fields[of "UpdatePatient ''0000000000000000000000b0'' demo_patient_in"
          Patient _ _ _ _ demo_db demo_patient demo_env "''tok-staff''",
          OF _ demo_object_ids(2) demo_present(1) demo_maps_ok(4,5,6) demo_staff_roles]
        update_writes_its_fields[of "UpdateResult ''0000000000000000000000d0'' demo_verify"
          TestResult _ _ _ _ demo_db demo_result demo_env "''tok-admin''",
          OF _ demo_object_ids(3) demo_present(2) demo_maps_ok(1,2,3) demo_admin_roles]
  by simp

text \<open>
  C6 as stated fails for Patient: the stored phone number \<open>555\<close> is not supplied in the
  update body, and after the update the stored phone is null.
\<close>

theorem patient_update_nulls_omitted_field:
  "PatientIn.phone demo_patient_in = None
   \<and> find_one (patient_coll demo_db) ''_id'' (VOid ''0000000000000000000000b0'') =
       Some [(''_id'', VOid ''0000000000000000000000b0''), (''first_name'', VStr ''Ann''),
             (''last_name'', VStr ''Lee''), (''date_of_birth'', VNone), (''gender'', VNone),
             (''phone'', VStr ''555''), (''email'', VNone), (''hospital_id'', VNone),
             (''created_at'', VTime 10), (''updated_at'', VTime 10)]
   \<and> find_one (patient_coll (snd (handle_request demo_env ''tok-staff''
                   (UpdatePatient ''0000000000000000000000b0'' demo_patient_in) demo_db)))
         ''_id'' (VOid ''0000000000000000000000b0'') =
       Some [(''_id'', VOid ''0000000000000000000000b0''), (''first_name'', VStr ''Ann''),
             (''last_name'', VStr ''Lee''), (''date_of_birth'', VNone), (''gender'', VNone),
             (''phone'', VNone), (''email'', VNone), (''hospital_id'', VNone),
             (''created_at'', VTime 10), (''updated_at'', VTime 1000)]"
proof -
  have h: "handle_request demo_env ''tok-staff''
             (UpdatePatient ''0000000000000000000000b0'' demo_patient_in) demo_db =
           update_patient demo_env ''0000000000000000000000b0'' demo_patient_in
             [(''name'', VStr ''Hana''), (''email'', VStr ''hana@lab.local''),
              (''password_hash'', VStr ''h:hana-pw''), (''role'', VStr ''hospital_staff''),
              (''is_active'', VBool True), (''id'', VStr ''0000000000000000000000a4'')] demo_db"
    by (simp add: handle_request_def demo_staff_roles)
  show ?thesis
    unfolding h
    by (simp add: update_patient_def update_by_id_def dump_patient_def demo_patient_in_def
        demo_patient_def demo_db_def demo_env_def opt_str_def dict_set_def find_one_def
        field_eq_def is_hex_def is_space_def lower_def Let_def)
qed

text \<open>
  C9. Whatever the outcome of a request to update a result, the referral collection is
  the same afterwards; and when the update succeeds, the stored result read back by its
  id, which is also the document returned, has every field of the update map at the
  value supplied, and \<open>updated_at\<close> at the time of the request.
\<close>

theorem result_update_leaves_referrals:
  assumes "handle_request e token (UpdateResult i upd) dbs = (out, dbs')"
      and "distinct (map fst upd)" and "top_level upd"
  shows "referral_coll dbs' = referral_coll dbs
       \<and> (\<forall>r. out = Inr r \<longrightarrow>
            (\<exists>oid d'. ObjectId (VStr i) = Inr oid
               \<and> find_one (testresult_coll dbs') ''_id'' (VOid oid) = Some d'
               \<and> r = VDict (serialize_doc e d')
               \<and> (\<forall>(k, v) \<in> set upd. k \<noteq> ''updated_at'' \<longrightarrow> map_of d' k = Some v)
               \<and> map_of d' ''updated_at'' = Some (VTime (clock e 0))))"
proof (cases "require_roles (route_roles (UpdateResult i upd)) e dbs token")
  case (Inl err)
  with assms(1) show ?thesis by (auto simp: handle_request_def)
next
  case (Inr u)
  let ?upd = "dict_set ''updated_at'' (VTime (clock e 0)) upd"
  let ?r = "update_by_id e (testresult_coll dbs) i ?upd ''Result not found''"
  have t: "update_target (UpdateResult i upd) = Some (TestResult, i, upd, ''Result not found'')"
    by simp
  from assms(1) have o: "out = fst ?r" and d: "dbs' = put_coll TestResult (snd ?r) dbs"
    using endpoint_update[OF t, of e u dbs] by (simp_all add: handle_request_authorized[OF Inr])
  from d have frame: "referral_coll dbs' = referral_coll dbs" by simp
  have "\<exists>oid d'. ObjectId (VStr i) = Inr oid
               \<and> find_one (testresult_coll dbs') ''_id'' (VOid oid) = Some d'
               \<and> r = VDict (serialize_doc e d')
               \<and> (\<forall>(k, v) \<in> set upd. k \<noteq> ''updated_at'' \<longrightarrow> map_of d' k = Some v)
               \<and> map_of d' ''updated_at'' = Some (VTime (clock e 0))" if "out = Inr r" for r
  proof -
    from that o have "?r = (Inr r, snd ?r)" by (metis prod.collapse)
    from update_by_id_success[OF this] obtain oid d0 where
      p: "ObjectId (VStr i) = Inr oid" "r = VDict (serialize_doc e (dict_update d0 ?upd))"
         "find_one (snd ?r) ''_id'' (VOid oid) = Some (dict_update d0 ?upd)"
      by blast
    have m: "map_of (dict_update d0 ?upd) = (map_of d0 ++ map_of upd)(''updated_at'' \<mapsto> VTime (clock e 0))"
      by (rule stamped_merge[OF assms(2)])
    have "\<forall>(k, v) \<in> set upd. k \<noteq> ''updated_at'' \<longrightarrow> map_of (dict_update d0 ?upd) k = Some v"
      using assms(2) by (auto simp: m map_add_def)
    moreover have "map_of (dict_update d0 ?upd) ''updated_at'' = Some (VTime (clock e 0))"
      by (simp add: m)
    moreover from p(3) d have "find_one (testresult_coll dbs') ''_id'' (VOid oid) = Some (dict_update d0 ?upd)"
      by simp
    ultimately show ?thesis using p(1,2) by blast
  qed
  with frame show ?thesis by blast
qed

theorem result_update_leaves_referrals_witness:
  "handle_request demo_env ''tok-admin'' (UpdateResult ''0000000000000000000000d0'' demo_verify) demo_db =
     (Inr (VDict [(''referral_id'', VStr ''0000000000000000000000c0''), (''test_code'', VStr ''CBC''),
                  (''value'', VStr ''4.2''), (''unit'', VNone), (''reference_range'', VNone),
                  (''status'', VStr ''verified''), (''created_at'', VStr ''T''),
                  (''updated_at'', VStr ''T''),
                  (''reviewed_by'', VStr ''0000000000000000000000a2''),
                  (''reviewed_at'', VStr ''2024-05-01T10:00:00''),
                  (''id'', VStr ''0000000000000000000000d0'')]),
      demo_db\<lparr>testresult_coll :=
        [[(''_id'', VOid ''0000000000000000000000d0''),
          (''referral_id'', VStr ''0000000000000000000000c0''), (''test_code'', VStr ''CBC''),
          (''value'', VStr ''4.2''), (''unit'', VNone), (''reference_range'', VNone),
          (''status'', VStr ''verified''), (''created_at'', VTime 30),
          (''updated_at'', VTime 1000),
          (''reviewed_by'', VStr ''0000000000000000000000a2''),
          (''reviewed_at'', VStr ''2024-05-01T10:00:00'')]]\<rparr>)
   \<and> referral_coll (snd (handle_request demo_env ''tok-admin''
          (UpdateResult ''0000000000000000000000d0'' demo_verify) demo_db)) = [demo_referral]
   \<and> map_of demo_referral ''status'' = Some (VStr ''pending'')"
proof -
  have h: "handle_request demo_env ''tok-admin'' (UpdateResult ''0000000000000000000000d0'' demo_verify) demo_db =
           update_result demo_env ''0000000000000000000000d0'' demo_verify
             [(''name'', VStr ''Root''), (''email'', VStr ''root@lab.local''),
              (''password_hash'', VStr ''h:root-pw''), (''role'', VStr ''admin''),
              (''is_active'', VBool True), (''id'', VStr ''0000000000000000000000a0'')] demo_db"
    by (simp add: handle_request_def demo_admin_roles)
  have v: "handle_request demo_env ''tok-admin'' (UpdateResult ''0000000000000000000000d0'' demo_verify) demo_db =
     (Inr (VDict [(''referral_id'', VStr ''0000000000000000000000c0''), (''test_code'', VStr ''CBC''),
                  (''value'', VStr ''4.2''), (''unit'', VNone), (''reference_range'', VNone),
                  (''status'', VStr ''verified''), (''created_at'', VStr ''T''),
                  (''updated_at'', VStr ''T''),
                  (''reviewed_by'', VStr ''0000000000000000000000a2''),
                  (''reviewed_at'', VStr ''2024-05-01T10:00:00''),
                  (''id'', VStr ''0000000000000000000000d0'')]),
      demo_db\<lparr>testresult_coll :=
        [[(''_id'', VOid ''0000000000000000000000d0''),
          (''referral_id'', VStr ''0000000000000000000000c0''), (''test_code'', VStr ''CBC''),
          (''value'', VStr ''4.2''), (''unit'', VNone), (''reference_range'', VNone),
          (''status'', VStr ''verified''), (''created_at'', VTime 30),
          (''updated_at'', VTime 1000),
          (''reviewed_by'', VStr ''0000000000000000000000a2''),
          (''reviewed_at'', VStr ''2024-05-01T10:00:00'')]]\<rparr>)"
    unfolding h
    by (simp add: update_result_def update_by_id_def demo_verify_def demo_result_def demo_db_def
        demo_env_def dict_set_def dict_get_def serialize_doc_def find_one_def field_eq_def
        is_hex_def is_space_def lower_def Let_def)
  have r: "referral_coll demo_db = [demo_referral]" by (simp add: demo_db_def)
  have s: "map_of demo_referral ''status'' = Some (VStr ''pending'')" by (simp add: demo_referral_def)
  show ?thesis
    using result_update_leaves_referrals[OF v demo_maps_ok(1,2)] v r s by simp
qed

section \<open>Seeding the first admin\<close>

lemma seed_admin_exists:
  "0 < count_documents (user_coll dbs) ''role'' (VStr ''admin'') \<Longrightarrow>
   seed_admin e dbs = (Inr (VDict [(''message'', VStr ''Admin exists'')]), dbs)"
  by (simp add: seed_admin_def)

lemma insert_one_appends:
  "insert_one e coll d = Inr (coll', d', i) \<Longrightarrow>
   coll' = coll @ [d'] \<and> (\<forall>k. k \<noteq> ''_id'' \<longrightarrow> map_of d' k = map_of d k)"
  by (auto simp: insert_one_def Let_def map_of_dict_set split: if_splits option.splits)

lemma seed_admin_cases:
  "seed_admin e dbs = (Inr (VDict [(''message'', VStr ''Admin exists'')]), dbs)
     \<and> 0 < count_documents (user_coll dbs) ''role'' (VStr ''admin'')
   \<or> seed_admin e dbs = (Inl DuplicateKeyError, dbs)
     \<and> count_documents (user_coll dbs) ''role'' (VStr ''admin'') = 0
   \<or> (\<exists>d. seed_admin e dbs =
              (Inr (VDict [(''message'', VStr ''Admin seeded''), (''email'', VStr ''admin@lab.local''),
                           (''password'', VStr ''admin123'')]),
               dbs\<lparr>user_coll := user_coll dbs @ [d]\<rparr>)
          \<and> field_eq ''role'' (VStr ''admin'') d
          \<and> count_documents (user_coll dbs) ''role'' (VStr ''admin'') = 0)"
proof (cases "0 < count_documents (user_coll dbs) ''role'' (VStr ''admin'')")
  case True
  then show ?thesis by (simp add: seed_admin_exists)
next
  case False
  let ?doc = "[(''name'', VStr ''Super Admin''), (''email'', VStr ''admin@lab.local''),
               (''password_hash'', VStr (hash_password e ''admin123'')), (''role'', VStr ''admin''),
               (''is_active'', VBool True), (''created_at'', VTime (clock e 0)),
               (''updated_at'', VTime (clock e 1))]"
  show ?thesis
  proof (cases "insert_one e (user_coll dbs) ?doc")
    case (Inl err)
    then have "err = DuplicateKeyError"
      by (auto simp: insert_one_def Let_def split: if_splits)
    with Inl False show ?thesis by (simp add: seed_admin_def)
  next
    case (Inr t)
    obtain coll' d' i where t: "t = (coll', d', i)" by (cases t) auto
    from insert_one_appends[OF Inr[unfolded t]]
    have c: "coll' = user_coll dbs @ [d']" and m: "\<And>k. k \<noteq> ''_id'' \<Longrightarrow> map_of d' k = map_of ?doc k"
      by auto
    from m[of "''role''"] have f: "field_eq ''role'' (VStr ''admin'') d'" by (simp add: field_eq_def)
    from m[of "''email''"] have g: "dict_get d' ''email'' = VStr ''admin@lab.local''"
      by (simp add: dict_get_def)
    from Inr t c f g False show ?thesis by (auto simp: seed_admin_def Let_def intro!: exI[of _ d'])
  qed
qed

lemma seed_admin_effect:
  "snd (seed_admin e dbs) = dbs
   \<or> (count_documents (user_coll dbs) ''role'' (VStr ''admin'') = 0 \<and> count_documents (user_coll (snd (seed_admin e dbs))) ''role'' (VStr ''admin'') = 1
       \<and> length (user_coll (snd (seed_admin e dbs))) = Suc (length (user_coll dbs)))"
  using seed_admin_cases[of e dbs] by (auto simp: count_documents_def)

text \<open>
  C8. When a user matching the query for role \<open>admin\<close> exists, \<open>seed_admin\<close> changes nothing
  and reports that the admin exists; after a call that returns, a second call is such a
  no-op; and after two calls in sequence the number of admins is at most the larger of
  one and the number before, the user collection having grown by one document at most.
\<close>

theorem seed_admin_idempotent:
  "(0 < count_documents (user_coll dbs) ''role'' (VStr ''admin'') \<longrightarrow>
      seed_admin e dbs = (Inr (VDict [(''message'', VStr ''Admin exists'')]), dbs))
   \<and> (\<forall>r. fst (seed_admin e dbs) = Inr r \<longrightarrow>
         seed_admin e' (snd (seed_admin e dbs)) =
           (Inr (VDict [(''message'', VStr ''Admin exists'')]), snd (seed_admin e dbs)))
   \<and> count_documents (user_coll (snd (seed_admin e' (snd (seed_admin e dbs))))) ''role'' (VStr ''admin'')
       \<le> max 1 (count_documents (user_coll dbs) ''role'' (VStr ''admin''))
   \<and> length (user_coll (snd (seed_admin e' (snd (seed_admin e dbs))))) \<le> Suc (length (user_coll dbs))"
proof (intro conjI allI impI)
  assume "0 < count_documents (user_coll dbs) ''role'' (VStr ''admin'')"
  then show "seed_admin e dbs = (Inr (VDict [(''message'', VStr ''Admin exists'')]), dbs)"
    by (rule seed_admin_exists)
next
  fix r assume "fst (seed_admin e dbs) = Inr r"
  with seed_admin_cases[of e dbs] have "0 < count_documents (user_coll (snd (seed_admin e dbs))) ''role'' (VStr ''admin'')"
    by (auto simp: count_documents_def)
  then show "seed_admin e' (snd (seed_admin e dbs)) =
           (Inr (VDict [(''message'', VStr ''Admin exists'')]), snd (seed_admin e dbs))"
    by (rule seed_admin_exists)
next
  show "count_documents (user_coll (snd (seed_admin e' (snd (seed_admin e dbs))))) ''role'' (VStr ''admin'') \<le> max 1 (count_documents (user_coll dbs) ''role'' (VStr ''admin''))"
    using seed_admin_effect[of e dbs] seed_admin_effect[of e' "snd (seed_admin e dbs)"]
    by auto
next
  show "length (user_coll (snd (seed_admin e' (snd (seed_admin e dbs))))) \<le> Suc (length (user_coll dbs))"
    using seed_admin_effect[of e dbs] seed_admin_effect[of e' "snd (seed_admin e dbs)"]
    by auto
qed

theorem seed_admin_idempotent_witness:
  "0 < count_documents (user_coll demo_db) ''role'' (VStr ''admin'')
   \<and> seed_admin demo_env demo_db = (Inr (VDict [(''message'', VStr ''Admin exists'')]), demo_db)
   \<and> fst (seed_admin demo_env empty_db) =
       Inr (VDict [(''message'', VStr ''Admin seeded''), (''email'', VStr ''admin@lab.local''),
                   (''password'', VStr ''admin123'')])
   \<and> seed_admin demo_env (snd (seed_admin demo_env empty_db)) =
       (Inr (VDict [(''message'', VStr ''Admin exists'')]), snd (seed_admin demo_env empty_db))
   \<and> count_documents (user_coll (snd (seed_admin demo_env (snd (seed_admin demo_env empty_db)))))
         ''role'' (VStr ''admin'') = 1"
proof -
  have a: "0 < count_documents (user_coll demo_db) ''role'' (VStr ''admin'')"
    by (simp add: count_documents_def demo_db_def demo_users_def field_eq_def)
  have s: "seed_admin demo_env empty_db =
       (Inr (VDict [(''message'', VStr ''Admin seeded''), (''email'', VStr ''admin@lab.local''),
                    (''password'', VStr ''admin123'')]),
        empty_db\<lparr>user_coll :=
          [[(''name'', VStr ''Super Admin''), (''email'', VStr ''admin@lab.local''),
            (''password_hash'', VStr ''h:admin123''), (''role'', VStr ''admin''),
            (''is_active'', VBool True), (''created_at'', VTime 1000),
            (''updated_at'', VTime 1001), (''_id'', VOid ''0000000000000000000000e0'')]]\<rparr>)"
    by (simp add: seed_admin_def empty_db_def count_documents_def insert_one_def hash_password_def
        demo_env_def dict_set_def dict_get_def Let_def)
  have c: "count_documents (user_coll (snd (seed_admin demo_env empty_db))) ''role'' (VStr ''admin'') = 1"
    by (simp add: s count_documents_def field_eq_def)
  from seed_admin_idempotent[of demo_db demo_env demo_env] a
  have x: "seed_admin demo_env demo_db = (Inr (VDict [(''message'', VStr ''Admin exists'')]), demo_db)"
    by blast
  from seed_admin_idempotent[of empty_db demo_env demo_env] s
  have y: "seed_admin demo_env (snd (seed_admin demo_env empty_db)) =
       (Inr (VDict [(''message'', VStr ''Admin exists'')]), snd (seed_admin demo_env empty_db))"
    by simp
  show ?thesis using a x y c s by simp
qed

end
